theory Spec2Isabelle
  imports Complex_Main
begin

section \<open>JavaScript numbers\<close>

text \<open>
  A JavaScript number is an IEEE 754 double: \<open>NaN\<close>, plus or minus infinity, or a finite
  double, held as the rational number it denotes. (The two zeros are not told apart:
  nothing here divides by a zero, and both print as \<open>0\<close>.) The configuration values are
  such numbers, read from the form with \<^verbatim>\<open>parseInt\<close> and \<^verbatim>\<open>parseFloat\<close> or decoded
  from JSON; \<^verbatim>\<open>parseInt(null)\<close>, for a missing slider, is \<open>NaN\<close>, and a comparison with
  \<^verbatim>\<open>undefined\<close> behaves as one with \<open>NaN\<close>.
\<close>

datatype jsnum = NaN | PosInfinity | NegInfinity | Num rat

text \<open>
  Rounding a rational to the nearest double, a tie going to the even significand. For
  \<open>n \<ge> 1\<close>, \<open>ilog2 n\<close> is the position of the leading bit of \<open>n\<close>, and for a
  positive rational \<open>a\<close>, \<open>floor_log2 a\<close> is the exponent \<open>e\<close> with
  \<open>2 ^ e \<le> a < 2 ^ (e + 1)\<close>. A double has 53 significant bits and no bit below
  \<open>2 ^ -1074\<close>: with \<open>2 ^ q\<close> the weight of the last bit kept, \<open>x\<close> rounds to
  \<open>n * 2 ^ q\<close>, where \<open>n\<close> is \<open>x / 2 ^ q\<close> rounded to an integer. A result that
  reaches \<open>2 ^ 1024\<close> is infinite; since \<open>n \<le> 2 ^ 53\<close>, that is when \<open>q \<ge> 972\<close>, or
  \<open>q = 971\<close> and \<open>n = 2 ^ 53\<close>. \<open>scale2 a k\<close> is \<open>a * 2 ^ k\<close>.
\<close>

function ilog2 :: "int \<Rightarrow> int" where
  "ilog2 n = (if n < 2 then 0 else 1 + ilog2 (n div 2))"
  by auto
termination
  by (relation "measure nat") auto

declare ilog2.simps [simp del]

definition floor_log2 :: "rat \<Rightarrow> int" where
  "floor_log2 a =
     (if 1 \<le> a then ilog2 \<lfloor>a\<rfloor> else - (1 + ilog2 (\<lceil>1 / a\<rceil> - 1)))"

definition round_half_even :: "rat \<Rightarrow> int" where
  "round_half_even m =
     (let f = \<lfloor>m\<rfloor>; r = m - of_int f
      in if r < 1 / 2 then f
         else if 1 / 2 < r then f + 1
         else if even f then f else f + 1)"

definition scale2 :: "rat \<Rightarrow> int \<Rightarrow> rat" where
  "scale2 a k = (if 0 \<le> k then a * of_int (2 ^ nat k) else a / of_int (2 ^ nat (- k)))"

definition to_double :: "rat \<Rightarrow> jsnum" where
  "to_double x =
     (if x = 0 then Num 0
      else
        (let a = \<bar>x\<bar>;
             e = floor_log2 a;
             q = max (e - 52) (- 1074);
             n = round_half_even (scale2 a (- q))
         in if 972 \<le> q \<or> (q = 971 \<and> n = 2 ^ 53)
            then (if 0 < x then PosInfinity else NegInfinity)
            else Num (if 0 < x then scale2 (of_int n) q else - scale2 (of_int n) q)))"

text \<open>
  The operations compute the exact result and round it; a comparison with \<open>NaN\<close> is
  false. \<^verbatim>\<open>Math.abs\<close> is exact.
\<close>

fun js_add :: "jsnum \<Rightarrow> jsnum \<Rightarrow> jsnum" where
  "js_add NaN y = NaN"
| "js_add x NaN = NaN"
| "js_add PosInfinity NegInfinity = NaN"
| "js_add NegInfinity PosInfinity = NaN"
| "js_add PosInfinity y = PosInfinity"
| "js_add x PosInfinity = PosInfinity"
| "js_add NegInfinity y = NegInfinity"
| "js_add x NegInfinity = NegInfinity"
| "js_add (Num a) (Num b) = to_double (a + b)"

fun js_neg :: "jsnum \<Rightarrow> jsnum" where
  "js_neg NaN = NaN"
| "js_neg PosInfinity = NegInfinity"
| "js_neg NegInfinity = PosInfinity"
| "js_neg (Num a) = Num (- a)"

definition js_sub :: "jsnum \<Rightarrow> jsnum \<Rightarrow> jsnum" where
  "js_sub x y = js_add x (js_neg y)"

fun js_mul :: "jsnum \<Rightarrow> jsnum \<Rightarrow> jsnum" where
  "js_mul NaN y = NaN"
| "js_mul x NaN = NaN"
| "js_mul (Num a) (Num b) = to_double (a * b)"
| "js_mul (Num a) PosInfinity = (if a = 0 then NaN else if 0 < a then PosInfinity else NegInfinity)"
| "js_mul (Num a) NegInfinity = (if a = 0 then NaN else if 0 < a then NegInfinity else PosInfinity)"
| "js_mul PosInfinity (Num b) = (if b = 0 then NaN else if 0 < b then PosInfinity else NegInfinity)"
| "js_mul NegInfinity (Num b) = (if b = 0 then NaN else if 0 < b then NegInfinity else PosInfinity)"
| "js_mul PosInfinity PosInfinity = PosInfinity"
| "js_mul NegInfinity NegInfinity = PosInfinity"
| "js_mul PosInfinity NegInfinity = NegInfinity"
| "js_mul NegInfinity PosInfinity = NegInfinity"

fun js_gt :: "jsnum \<Rightarrow> jsnum \<Rightarrow> bool" where
  "js_gt NaN y = False"
| "js_gt x NaN = False"
| "js_gt x PosInfinity = False"
| "js_gt NegInfinity y = False"
| "js_gt PosInfinity y = True"
| "js_gt x NegInfinity = True"
| "js_gt (Num a) (Num b) = (a > b)"

fun js_ge :: "jsnum \<Rightarrow> jsnum \<Rightarrow> bool" where
  "js_ge NaN y = False"
| "js_ge x NaN = False"
| "js_ge PosInfinity y = True"
| "js_ge x NegInfinity = True"
| "js_ge x PosInfinity = False"
| "js_ge NegInfinity y = False"
| "js_ge (Num a) (Num b) = (a \<ge> b)"

fun Math_abs :: "jsnum \<Rightarrow> jsnum" where
  "Math_abs NaN = NaN"
| "Math_abs PosInfinity = PosInfinity"
| "Math_abs NegInfinity = PosInfinity"
| "Math_abs (Num a) = Num \<bar>a\<bar>"

text \<open>
  \<^verbatim>\<open>Math.round\<close> gives the integer nearest to its argument, a tie going towards plus
  infinity, and leaves \<open>NaN\<close> and the infinities as they are; its result is kept in a
  type of its own.
\<close>

datatype js_integer = IntNaN | IntInfinity | IntNegInfinity | IntValue int

fun Math_round :: "jsnum \<Rightarrow> js_integer" where
  "Math_round NaN = IntNaN"
| "Math_round PosInfinity = IntInfinity"
| "Math_round NegInfinity = IntNegInfinity"
| "Math_round (Num a) = IntValue \<lfloor>a + 1 / 2\<rfloor>"

text \<open>
  The text of such a number in a template literal (\<open>Number::toString\<close>). The digits are
  the shortest decimal significand \<open>s\<close>, of \<open>k\<close> digits, such that \<open>s * 10 ^ (n - k)\<close>
  rounds to the number, the closest one when there are several; 17 digits always suffice.
  A number of at most 21 digits prints the digits of \<open>s\<close> and then zeros (so every
  integer below \<open>2 ^ 53\<close> prints in full), a larger one prints in exponent notation.
  \<open>decimal\<close> writes a non-negative integer in full.
\<close>

function decimal :: "int \<Rightarrow> string" where
  "decimal n =
     (if n < 10 then [''0123456789'' ! nat n]
      else decimal (n div 10) @ [''0123456789'' ! nat (n mod 10)])"
  by auto
termination
  by (relation "measure nat") auto

declare decimal.simps [simp del]

definition exponent_candidates :: "int \<Rightarrow> nat \<Rightarrow> nat \<Rightarrow> (nat \<times> int) list" where
  "exponent_candidates x k n =
     (let p = 10 ^ (n - k); s0 = x div p
      in map (\<lambda>s. (n, s))
           (filter (\<lambda>s. 10 ^ (k - 1) \<le> s \<and> s < 10 ^ k \<and> to_double (of_int (s * p)) = Num (of_int x))
                   [s0, s0 + 1]))"

definition closer :: "int \<Rightarrow> nat \<Rightarrow> nat \<times> int \<Rightarrow> nat \<times> int \<Rightarrow> nat \<times> int" where
  "closer x k c d =
     (let dc = \<bar>snd c * 10 ^ (fst c - k) - x\<bar>; dd = \<bar>snd d * 10 ^ (fst d - k) - x\<bar>
      in if dd < dc \<or> (dd = dc \<and> even (snd d) \<and> odd (snd c)) then d else c)"

fun shortest_digits :: "int \<Rightarrow> nat \<Rightarrow> nat \<Rightarrow> (nat \<times> int) option" where
  "shortest_digits x k 0 = None"
| "shortest_digits x k (Suc fuel) =
     (let len = length (decimal x);
          cs = exponent_candidates x k len @ exponent_candidates x k (Suc len)
      in case cs of
           [] \<Rightarrow> shortest_digits x (Suc k) fuel
         | c # rest \<Rightarrow> Some (foldl (closer x k) c rest))"

definition digits_of :: "int \<Rightarrow> string" where
  "digits_of x =
     (if x = 0 then ''0''
      else
        (case shortest_digits x 1 17 of
           None \<Rightarrow> decimal x
         | Some (n, s) \<Rightarrow>
             (let ds = decimal s
              in if n \<le> 21 then ds @ replicate (n - length ds) (CHR ''0'')
                 else [hd ds] @ (if 1 < length ds then ''.'' @ tl ds else [])
                        @ ''e+'' @ decimal (int n - 1))))"

fun Number_toString :: "js_integer \<Rightarrow> string" where
  "Number_toString IntNaN = ''NaN''"
| "Number_toString IntInfinity = ''Infinity''"
| "Number_toString IntNegInfinity = ''-Infinity''"
| "Number_toString (IntValue i) = (if i < 0 then ''-'' @ digits_of (- i) else digits_of i)"

text \<open>\<^verbatim>\<open>Array.prototype.join\<close> on a list of strings.\<close>

fun join :: "string \<Rightarrow> string list \<Rightarrow> string" where
  "join sep [] = []"
| "join sep [x] = x"
| "join sep (x # y # ys) = x @ sep @ join sep (y # ys)"

section \<open>The configuration object\<close>

text \<open>
  The configuration is the nested object that \<^verbatim>\<open>collectFormData\<close> builds and that
  the server returns. A section that the code tests for or dereferences is optional:
  \<open>None\<close> is an absent (or null) property.
\<close>

record ta_params_t =
  rsi_period :: jsnum
  rsi_overbought :: jsnum
  rsi_oversold :: jsnum
  sma_short :: jsnum
  sma_long :: jsnum
  ema_short :: jsnum
  ema_long :: jsnum
  stoch_overbought :: jsnum
  stoch_oversold :: jsnum
  min_volume_ratio :: jsnum
  min_confidence :: jsnum
  min_risk_reward :: jsnum

record signal_config_t =
  max_active_signals :: jsnum
  signal_cooldown_minutes :: jsnum
  stop_loss_atr_multiplier :: jsnum
  target_multipliers :: "jsnum list"

text \<open>
  \<open>indicator_weights\<close> is an object from indicator name to weight; it is kept as the
  list of its properties in insertion order, which is the order of \<^verbatim>\<open>Object.values\<close>.
\<close>

record trading_t =
  ta_params :: "ta_params_t option"
  signal_config :: "signal_config_t option"
  indicator_weights :: "(string \<times> jsnum) list option"

record bitcoin_t =
  fetch_interval :: jsnum
  max_queue_size :: jsnum

record streaming_t =
  bitcoin :: "bitcoin_t option"

record system_t =
  auto_start_stream :: bool
  require_volume_confirmation :: bool
  enable_auto_signals :: bool
  enable_advanced_patterns :: bool
  enable_notifications :: bool
  correlation_analysis :: bool
  auto_cleanup :: bool
  data_retention_days :: jsnum

record config_t =
  trading :: "trading_t option"
  streaming :: "streaming_t option"
  system :: "system_t option"

section \<open>SettingsManager.validateConfig\<close>

datatype js_error = TypeError

record validation =
  valid :: bool
  errors :: "string list"

definition Object_values :: "(string \<times> jsnum) list \<Rightarrow> jsnum list" where
  "Object_values obj = map snd obj"

text \<open>\<^verbatim>\<open>Object.values(weights).reduce((sum, w) => sum + w, 0)\<close>\<close>

definition totalWeight :: "(string \<times> jsnum) list \<Rightarrow> jsnum" where
  "totalWeight weights = foldl js_add (Num 0) (Object_values weights)"

definition weightSumMessage :: "jsnum \<Rightarrow> string" where
  "weightSumMessage tw =
     ''Soma dos pesos deve ser 100% (atual: ''
       @ Number_toString (Math_round (js_mul tw (Num 100))) @ ''%)''"

text \<open>
  The rules run only when \<open>config.trading\<close> is truthy. Reading a property of an absent
  \<open>ta_params\<close>, or taking \<^verbatim>\<open>Object.values\<close> of an absent \<open>indicator_weights\<close>, throws a
  \<open>TypeError\<close>.
\<close>

definition validateConfig :: "'a config_t_scheme \<Rightarrow> js_error + validation" where
  "validateConfig config =
     (case trading config of
        None \<Rightarrow> Inr \<lparr>valid = True, errors = []\<rparr>
      | Some tr \<Rightarrow>
          (case ta_params tr of
             None \<Rightarrow> Inl TypeError
           | Some ta \<Rightarrow>
               (let e1 = (if js_ge (rsi_oversold ta) (rsi_overbought ta)
                          then [''RSI oversold deve ser menor que overbought''] else []);
                    e2 = (if js_ge (sma_short ta) (sma_long ta)
                          then [''SMA curta deve ser menor que SMA longa''] else []);
                    e3 = (if js_ge (ema_short ta) (ema_long ta)
                          then [''EMA curta deve ser menor que EMA longa''] else [])
                in (case indicator_weights tr of
                      None \<Rightarrow> Inl TypeError
                    | Some weights \<Rightarrow>
                        (let tw = totalWeight weights;
                             e4 = (if js_gt (Math_abs (js_sub tw (Num 1))) (to_double (1 / 100))
                                   then [weightSumMessage tw] else []);
                             errs = e1 @ e2 @ e3 @ e4
                         in Inr \<lparr>valid = (length errs = 0), errors = errs\<rparr>)))))"

text \<open>A weight-sum error is recognised by the words its message starts with.\<close>

definition isWeightSumError :: "string \<Rightarrow> bool" where
  "isWeightSumError m = (take 14 m = ''Soma dos pesos'')"

section \<open>The settings form and SettingsManager.collectFormData\<close>

text \<open>
  Each slider of the form is represented by the number that \<^verbatim>\<open>parseInt\<close> or
  \<^verbatim>\<open>parseFloat\<close> reads from it (\<open>NaN\<close> when the element is missing or its text is
  not a number), each checkbox by its \<open>checked\<close> flag (\<open>False\<close> when the element is
  missing). The fields carry the element ids.
\<close>

record form_t =
  sl_rsi_period :: jsnum
  sl_rsi_overbought :: jsnum
  sl_rsi_oversold :: jsnum
  sl_sma_short :: jsnum
  sl_sma_long :: jsnum
  sl_ema_short :: jsnum
  sl_ema_long :: jsnum
  sl_stoch_overbought :: jsnum
  sl_stoch_oversold :: jsnum
  sl_volume_ratio :: jsnum
  sl_min_confidence :: jsnum
  sl_risk_reward :: jsnum
  sl_max_signals :: jsnum
  sl_cooldown_minutes :: jsnum
  sl_stop_loss_atr :: jsnum
  sl_target_1 :: jsnum
  sl_target_2 :: jsnum
  sl_target_3 :: jsnum
  sl_weight_rsi :: jsnum
  sl_weight_macd :: jsnum
  sl_weight_bb :: jsnum
  sl_weight_stoch :: jsnum
  sl_weight_sma :: jsnum
  sl_weight_volume :: jsnum
  sl_fetch_interval_btc :: jsnum
  sl_max_queue_size :: jsnum
  sl_cleanup_days :: jsnum
  cb_auto_start_stream :: bool
  cb_require_volume :: bool
  cb_enable_auto_signals :: bool
  cb_enable_advanced_patterns :: bool
  cb_enable_notifications :: bool
  cb_correlation_analysis :: bool
  cb_auto_cleanup :: bool

definition collectFormData :: "form_t \<Rightarrow> config_t" where
  "collectFormData f =
     \<lparr>trading = Some
        \<lparr>ta_params = Some
           \<lparr>rsi_period = sl_rsi_period f,
            rsi_overbought = sl_rsi_overbought f,
            rsi_oversold = sl_rsi_oversold f,
            sma_short = sl_sma_short f,
            sma_long = sl_sma_long f,
            ema_short = sl_ema_short f,
            ema_long = sl_ema_long f,
            stoch_overbought = sl_stoch_overbought f,
            stoch_oversold = sl_stoch_oversold f,
            min_volume_ratio = sl_volume_ratio f,
            min_confidence = sl_min_confidence f,
            min_risk_reward = sl_risk_reward f\<rparr>,
         signal_config = Some
           \<lparr>max_active_signals = sl_max_signals f,
            signal_cooldown_minutes = sl_cooldown_minutes f,
            stop_loss_atr_multiplier = sl_stop_loss_atr f,
            target_multipliers = [sl_target_1 f, sl_target_2 f, sl_target_3 f]\<rparr>,
         indicator_weights = Some
           [(''rsi'', sl_weight_rsi f),
            (''macd'', sl_weight_macd f),
            (''bb'', sl_weight_bb f),
            (''stoch'', sl_weight_stoch f),
            (''sma_cross'', sl_weight_sma f),
            (''volume'', sl_weight_volume f)]\<rparr>,
      streaming = Some
        \<lparr>bitcoin = Some
           \<lparr>fetch_interval = sl_fetch_interval_btc f,
            max_queue_size = sl_max_queue_size f\<rparr>\<rparr>,
      system = Some
        \<lparr>auto_start_stream = cb_auto_start_stream f,
         require_volume_confirmation = cb_require_volume f,
         enable_auto_signals = cb_enable_auto_signals f,
         enable_advanced_patterns = cb_enable_advanced_patterns f,
         enable_notifications = cb_enable_notifications f,
         correlation_analysis = cb_correlation_analysis f,
         auto_cleanup = cb_auto_cleanup f,
         data_retention_days = sl_cleanup_days f\<rparr>\<rparr>"

section \<open>SettingsManager.saveSettings\<close>

text \<open>
  The manager's state: the snapshot \<open>currentConfig\<close> (the object the server sent, which
  may carry keys beyond the three that the form fills, kept in the record's extension),
  the dirty flag \<open>unsavedChanges\<close>, and the form the user is editing.
\<close>

record 'a settings_state =
  currentConfig :: "'a config_t_scheme"
  unsavedChanges :: bool
  form :: form_t

text \<open>The one request \<open>saveSettings\<close> can issue, and what can come back from it.\<close>

record save_request =
  url :: string
  http_method :: string
  body_config :: config_t
  body_apply_immediately :: bool

datatype server_reply =
    FetchRejected
  | BodyUnparsable
  | BodyNull
  | BodyObject (reply_status: "string option") (reply_message: "string option")

text \<open>
  What the user and the network see of a run, in order. Strings hold one character per
  UTF-16 code unit; the accented letters of the messages are below 256.
\<close>

datatype event =
    ShowLoading string
  | HideLoading
  | ShowSuccess string
  | ShowError string
  | ConsoleError
  | Fetch save_request
  | UpdateSaveButton
  | UpdateConfigPreview

definition cedilla_oes :: string where
  "cedilla_oes = [CHR 0xE7, CHR 0xF5] @ ''es''"

definition msg_saving :: string where
  "msg_saving = ''Salvando configura'' @ cedilla_oes @ ''...''"

definition msg_invalid_prefix :: string where
  "msg_invalid_prefix =
     ''Configura'' @ [CHR 0xE7, CHR 0xE3] @ ''o inv'' @ [CHR 0xE1] @ ''lida: ''"

definition msg_saved :: string where
  "msg_saved = ''Configura'' @ cedilla_oes @ '' salvas e aplicadas com sucesso!''"

definition msg_save_failed :: string where
  "msg_save_failed = ''Erro ao salvar configura'' @ cedilla_oes"

text \<open>A template literal prints an absent property as \<open>undefined\<close>.\<close>

definition template_str :: "string option \<Rightarrow> string" where
  "template_str v = (case v of None \<Rightarrow> ''undefined'' | Some t \<Rightarrow> t)"

text \<open>\<^verbatim>\<open>{ ...this.currentConfig, ...configData }\<close>: the three keys of the form data
  replace those of the snapshot, every other key of the snapshot stays.\<close>

definition spread :: "'a config_t_scheme \<Rightarrow> config_t \<Rightarrow> 'a config_t_scheme" where
  "spread cur configData =
     cur\<lparr>trading := trading configData,
         streaming := streaming configData,
         system := system configData\<rparr>"

text \<open>
  \<open>saveSettings\<close> with the reply the server would give. An exception anywhere in the
  \<^verbatim>\<open>try\<close> block (thrown by the validation, by a rejected \<^verbatim>\<open>fetch\<close>, by a body
  that is not JSON, or by reading \<open>status\<close> of \<open>null\<close>) lands in the \<^verbatim>\<open>catch\<close>;
  \<open>hideLoading\<close> runs in every case.
\<close>

definition saveSettings ::
  "server_reply \<Rightarrow> 'a settings_state \<Rightarrow> 'a settings_state \<times> event list" where
  "saveSettings reply s =
     (let configData = collectFormData (form s);
          caught = [ConsoleError, ShowError msg_save_failed, HideLoading];
          request = \<lparr>url = ''/settings/api/save-config'', http_method = ''POST'',
                     body_config = configData, body_apply_immediately = True\<rparr>
      in case validateConfig configData of
           Inl e \<Rightarrow> (s, ShowLoading msg_saving # caught)
         | Inr v \<Rightarrow>
             if \<not> valid v then
               (s, [ShowLoading msg_saving,
                    ShowError (msg_invalid_prefix @ join '', '' (errors v)),
                    HideLoading])
             else
               (case reply of
                  FetchRejected \<Rightarrow> (s, ShowLoading msg_saving # Fetch request # caught)
                | BodyUnparsable \<Rightarrow> (s, ShowLoading msg_saving # Fetch request # caught)
                | BodyNull \<Rightarrow> (s, ShowLoading msg_saving # Fetch request # caught)
                | BodyObject st msg \<Rightarrow>
                    if st = Some ''success'' then
                      (s\<lparr>currentConfig := spread (currentConfig s) configData,
                         unsavedChanges := False\<rparr>,
                       [ShowLoading msg_saving, Fetch request, UpdateSaveButton,
                        UpdateConfigPreview, ShowSuccess msg_saved, HideLoading])
                    else
                      (s, [ShowLoading msg_saving, Fetch request,
                           ShowError (''Erro ao salvar: '' @ template_str msg),
                           HideLoading])))"

definition isFetch :: "event \<Rightarrow> bool" where
  "isFetch e = (case e of Fetch r \<Rightarrow> True | _ \<Rightarrow> False)"

text \<open>The save succeeds when the body that comes back has \<open>status\<close> equal to \<open>success\<close>.\<close>

definition saveSucceeds :: "server_reply \<Rightarrow> bool" where
  "saveSucceeds reply =
     (case reply of BodyObject st msg \<Rightarrow> st = Some ''success'' | _ \<Rightarrow> False)"

section \<open>SettingsManager.displaySystemStatus\<close>

text \<open>
  The status indicator of the settings page: the class list of the indicator element and
  the text beside it. \<open>health\<close> is \<open>None\<close> when the property is absent or not a string.
  When either element is missing nothing is displayed; reading \<open>health\<close> of an absent
  status object throws.
\<close>

record system_status =
  health :: "string option"

record status_dom =
  indicator_classes :: "string list"
  status_text :: string

definition displaySystemStatus ::
  "system_status option \<Rightarrow> status_dom option \<Rightarrow> js_error + status_dom option" where
  "displaySystemStatus st elems =
     (case elems of
        None \<Rightarrow> Inr None
      | Some d \<Rightarrow>
          (case st of
             None \<Rightarrow> Inl TypeError
           | Some stat \<Rightarrow>
               (let h = health stat in
                if h = Some ''HEALTHY'' then
                  Inr (Some \<lparr>indicator_classes = [''status-indicator'', ''status-active''],
                             status_text = ''Sistema saud'' @ [CHR 0xE1] @ ''vel''\<rparr>)
                else if h = Some ''DEGRADED'' \<or> h = Some ''PARTIAL'' then
                  Inr (Some \<lparr>indicator_classes = [''status-indicator'', ''status-warning''],
                             status_text = ''Sistema com problemas''\<rparr>)
                else if h = Some ''ERROR'' then
                  Inr (Some \<lparr>indicator_classes = [''status-indicator'', ''status-inactive''],
                             status_text = ''Sistema com erros''\<rparr>)
                else
                  Inr (Some \<lparr>indicator_classes = [''status-indicator'', ''status-warning''],
                             status_text = ''Status desconhecido''\<rparr>))))"

text \<open>The three display states, read off the class that was added to the indicator.\<close>

datatype tri_state = Healthy | Warning | Failed

definition tri_state_of :: "status_dom \<Rightarrow> tri_state option" where
  "tri_state_of d =
     (if indicator_classes d = [''status-indicator'', ''status-active''] then Some Healthy
      else if indicator_classes d = [''status-indicator'', ''status-warning''] then Some Warning
      else if indicator_classes d = [''status-indicator'', ''status-inactive''] then Some Failed
      else None)"

text \<open>The display state that a status object leads to when both elements are present.\<close>

definition displayedState :: "system_status \<Rightarrow> status_dom \<Rightarrow> tri_state option" where
  "displayedState st e =
     (case displaySystemStatus (Some st) (Some e) of
        Inr (Some d) \<Rightarrow> tri_state_of d
      | _ \<Rightarrow> None)"

section \<open>TradingDashboard.updateSystemStatus: the multi-asset line\<close>

text \<open>
  The dashboard has a status line of its own for the multi-asset health, with the states
  online and offline and a neutral state for a text given by the caller. The reply to
  \<^verbatim>\<open>/api/multi-asset/health\<close> is a rejected fetch, a response that is not \<open>ok\<close>, a
  body that is not JSON or is null, or an object whose \<open>overall_status\<close> is given
  (\<open>None\<close>: absent or not a string).
\<close>

record status_line =
  line_text :: string
  line_class :: string

definition updateStatusDisplay ::
  "bool \<Rightarrow> string option \<Rightarrow> status_line option \<Rightarrow> status_line option" where
  "updateStatusDisplay isOnline customText element =
     (case element of
        None \<Rightarrow> None
      | Some el \<Rightarrow>
          (case customText of
             Some t \<Rightarrow>
               if t \<noteq> [] then Some \<lparr>line_text = ''Status: '' @ t, line_class = ''status-text''\<rparr>
               else Some \<lparr>line_text = ''Status: '' @ (if isOnline then ''Online'' else ''Offline''),
                          line_class = ''status-text '' @ (if isOnline then ''online'' else ''offline'')\<rparr>
           | None \<Rightarrow>
               Some \<lparr>line_text = ''Status: '' @ (if isOnline then ''Online'' else ''Offline''),
                     line_class = ''status-text '' @ (if isOnline then ''online'' else ''offline'')\<rparr>))"

datatype multi_reply =
    MultiFetchRejected
  | MultiNotOk
  | MultiBodyUnparsable
  | MultiBodyNull
  | MultiBody "string option"

definition multiAssetStatus :: "multi_reply \<Rightarrow> status_line option \<Rightarrow> status_line option" where
  "multiAssetStatus reply element =
     (case reply of
        MultiNotOk \<Rightarrow>
          updateStatusDisplay False (Some (''N'' @ [CHR 0xE3] @ ''o dispon'' @ [CHR 0xED] @ ''vel''))
            element
      | MultiBody overall_status \<Rightarrow>
          (let isHealthy = (overall_status = Some ''HEALTHY'' \<or> overall_status = Some ''PARTIAL'')
           in updateStatusDisplay isHealthy None element)
      | _ \<Rightarrow> updateStatusDisplay False (Some (''N'' @ [CHR 0xE3] @ ''o configurado'')) element)"

section \<open>TradingDashboard: the signals table\<close>

text \<open>
  A signal as the dashboard receives it. \<open>created_at\<close> is the time value (milliseconds)
  that \<^verbatim>\<open>new Date(signal.created_at)\<close> yields; signals whose date does not parse are
  outside the model, because the comparator then returns \<open>NaN\<close> and the order that
  \<^verbatim>\<open>Array.prototype.sort\<close> produces is implementation-defined. The remaining display
  fields live in the record's extension.
\<close>

record 'i signal =
  signal_id :: 'i
  created_at :: int
  asset_symbol :: string
  status :: string

text \<open>\<^verbatim>\<open>Array.prototype.findIndex\<close>; \<open>None\<close> is the result \<open>-1\<close>.\<close>

fun findIndex :: "('a \<Rightarrow> bool) \<Rightarrow> 'a list \<Rightarrow> nat option" where
  "findIndex P [] = None"
| "findIndex P (x # xs) =
     (if P x then Some 0
      else (case findIndex P xs of None \<Rightarrow> None | Some i \<Rightarrow> Some (Suc i)))"

text \<open>
  \<^verbatim>\<open>signals.filter((signal, index, self) => index === self.findIndex(s => s.id === signal.id))\<close>
\<close>

definition removeDuplicateSignals ::
  "('i, 'b) signal_scheme list \<Rightarrow> ('i, 'b) signal_scheme list" where
  "removeDuplicateSignals signals =
     map snd
       (filter (\<lambda>(index, signal).
                  Some index = findIndex (\<lambda>s. signal_id s = signal_id signal) signals)
               (enumerate 0 signals))"

text \<open>
  The comparator \<^verbatim>\<open>(a, b) => new Date(b.created_at) - new Date(a.created_at)\<close>, and
  \<^verbatim>\<open>Array.prototype.sort\<close> as a stable sort by a comparator (an element goes before
  the first one it does not compare greater than, the later elements being inserted first).
\<close>

definition byCreatedDesc :: "('i, 'b) signal_scheme \<Rightarrow> ('i, 'b) signal_scheme \<Rightarrow> int" where
  "byCreatedDesc a b = created_at b - created_at a"

fun insertSorted :: "('a \<Rightarrow> 'a \<Rightarrow> int) \<Rightarrow> 'a \<Rightarrow> 'a list \<Rightarrow> 'a list" where
  "insertSorted cmp x [] = [x]"
| "insertSorted cmp x (y # ys) =
     (if cmp x y \<le> 0 then x # y # ys else y # insertSorted cmp x ys)"

definition Array_sort :: "('a \<Rightarrow> 'a \<Rightarrow> int) \<Rightarrow> 'a list \<Rightarrow> 'a list" where
  "Array_sort cmp xs = foldr (insertSorted cmp) xs []"

text \<open>The rows that \<open>displaySignalsTable\<close> renders for a non-empty list of signals.\<close>

definition renderedSignals ::
  "('i, 'b) signal_scheme list \<Rightarrow> ('i, 'b) signal_scheme list" where
  "renderedSignals signals =
     take 20 (Array_sort byCreatedDesc (removeDuplicateSignals signals))"

text \<open>
  The content of the table body: the markup the page came with, the row saying that there
  is no active signal, one row per rendered signal, or the row saying that loading failed.
\<close>

datatype 'r table_body = PageMarkup | NoSignalsRow | SignalRows "'r list" | LoadErrorRow

record monitor_status =
  is_running :: bool
  tracked_signals_count :: nat

text \<open>
  The part of the dashboard that \<open>updateSignalsTable\<close> reads and writes: the table body
  and the two counters (\<open>None\<close> when the element is not in the page), and the fields of
  the signal monitor. The monitor line and the time of the last update are written to
  elements of their own and are left out.
\<close>

record ('i, 'b) dashboard_state =
  signals_table_body :: "('i, 'b) signal_scheme table_body option"
  active_signals_count :: "string option"
  total_signals_count :: "string option"
  signalMonitorEnabled :: bool
  lastSignalMonitorCheck :: int
  signalCheckInterval :: int
  duplicateAlertShown :: bool

definition displaySignalsTable ::
  "('i, 'b) signal_scheme list \<Rightarrow> ('i, 'b) dashboard_state \<Rightarrow> ('i, 'b) dashboard_state" where
  "displaySignalsTable signals d =
     (case signals_table_body d of
        None \<Rightarrow> d
      | Some tbody \<Rightarrow>
          if length signals = 0 then d\<lparr>signals_table_body := Some NoSignalsRow\<rparr>
          else d\<lparr>signals_table_body := Some (SignalRows (renderedSignals signals))\<rparr>)"

definition showSignalsError :: "('i, 'b) dashboard_state \<Rightarrow> ('i, 'b) dashboard_state" where
  "showSignalsError d =
     (case signals_table_body d of
        None \<Rightarrow> d
      | Some tbody \<Rightarrow> d\<lparr>signals_table_body := Some LoadErrorRow\<rparr>)"

fun duplicateIds :: "'i list \<Rightarrow> ('i, 'b) signal_scheme list \<Rightarrow> 'i list" where
  "duplicateIds uniqueIds [] = []"
| "duplicateIds uniqueIds (s # ss) =
     (if signal_id s \<in> set uniqueIds then signal_id s # duplicateIds uniqueIds ss
      else duplicateIds (signal_id s # uniqueIds) ss)"

definition checkForDuplicateSignals ::
  "('i, 'b) signal_scheme list \<Rightarrow> ('i, 'b) dashboard_state \<Rightarrow> ('i, 'b) dashboard_state" where
  "checkForDuplicateSignals signals d =
     (if length (duplicateIds [] signals) > 0 \<and> \<not> duplicateAlertShown d
      then d\<lparr>duplicateAlertShown := True\<rparr> else d)"

definition checkSignalMonitorStatus ::
  "int \<Rightarrow> monitor_status option \<Rightarrow> ('i, 'b) dashboard_state \<Rightarrow> ('i, 'b) dashboard_state" where
  "checkSignalMonitorStatus now monitorStatus d =
     (case monitorStatus of
        None \<Rightarrow> d
      | Some m \<Rightarrow>
          if now - lastSignalMonitorCheck d > signalCheckInterval d
          then d\<lparr>lastSignalMonitorCheck := now\<rparr> else d)"

definition updateSignalsCounts ::
  "('i, 'b) signal_scheme list \<Rightarrow> ('i, 'b) dashboard_state \<Rightarrow> ('i, 'b) dashboard_state" where
  "updateSignalsCounts signals d =
     (let activeSignals = length (filter (\<lambda>s. status s = ''ACTIVE'') signals);
          totalSignals = length signals
      in d\<lparr>active_signals_count :=
              map_option (\<lambda>t. Number_toString (IntValue (int activeSignals)) @ '' Ativos'')
                (active_signals_count d),
            total_signals_count :=
              map_option (\<lambda>t. Number_toString (IntValue (int totalSignals)) @ '' Total'')
                (total_signals_count d)\<rparr>)"

text \<open>
  What the request for \<^verbatim>\<open>/api/signals/dashboard-data\<close> can come to: the fetch is
  rejected, the response is not \<open>ok\<close>, its body is not JSON, or it is an object with a
  \<open>success\<close> flag and, possibly, \<open>data\<close>.
\<close>

record ('i, 'b) signals_data =
  active_signals :: "('i, 'b) signal_scheme list option"
  monitor_status_of :: "monitor_status option"

datatype ('i, 'b) signals_reply =
    SignalsFetchRejected
  | SignalsHttpError nat
  | SignalsBodyUnparsable
  | SignalsResult bool "('i, 'b) signals_data option"

text \<open>
  One polling cycle for the signals, at time \<open>now\<close>. Every exception of the \<^verbatim>\<open>try\<close>
  block, the two thrown by hand included, ends in \<open>showSignalsError\<close>.
\<close>

definition updateSignalsTable ::
  "int \<Rightarrow> ('i, 'b) signals_reply \<Rightarrow> ('i, 'b) dashboard_state \<Rightarrow> ('i, 'b) dashboard_state" where
  "updateSignalsTable now reply d =
     (case reply of
        SignalsFetchRejected \<Rightarrow> showSignalsError d
      | SignalsHttpError code \<Rightarrow> showSignalsError d
      | SignalsBodyUnparsable \<Rightarrow> showSignalsError d
      | SignalsResult success dat \<Rightarrow>
          if \<not> success then showSignalsError d
          else
            (case dat of
               None \<Rightarrow> showSignalsError d
             | Some data \<Rightarrow>
                 (let signals = (case active_signals data of None \<Rightarrow> [] | Some l \<Rightarrow> l);
                      d1 = checkForDuplicateSignals signals d;
                      d2 = (if signalMonitorEnabled d1
                            then checkSignalMonitorStatus now (monitor_status_of data) d1
                            else d1);
                      d3 = displaySignalsTable signals d2
                  in updateSignalsCounts signals d3)))"

text \<open>A cycle fails when it takes one of the paths into the \<^verbatim>\<open>catch\<close>.\<close>

definition fetchFails :: "('i, 'b) signals_reply \<Rightarrow> bool" where
  "fetchFails reply =
     (case reply of
        SignalsResult success dat \<Rightarrow> \<not> success \<or> dat = None
      | _ \<Rightarrow> True)"

section \<open>Concrete inputs\<close>

text \<open>A form whose values pass every rule: the weights are those of the scenario
  \<open>{rsi: 0.2, macd: 0.2, bb: 0.2, stoch: 0.2, sma: 0.1, volume: 0.1}\<close>, each the double
  that the decimal denotes.\<close>

definition ex_form :: form_t where
  "ex_form =
     \<lparr>sl_rsi_period = Num 14, sl_rsi_overbought = Num 70, sl_rsi_oversold = Num 30,
      sl_sma_short = Num 9, sl_sma_long = Num 21, sl_ema_short = Num 12, sl_ema_long = Num 26,
      sl_stoch_overbought = Num 80, sl_stoch_oversold = Num 20,
      sl_volume_ratio = Num (3 / 2), sl_min_confidence = Num 60, sl_risk_reward = Num 2,
      sl_max_signals = Num 5, sl_cooldown_minutes = Num 30, sl_stop_loss_atr = Num 2,
      sl_target_1 = Num 1, sl_target_2 = Num 2, sl_target_3 = Num 3,
      sl_weight_rsi = to_double (1 / 5), sl_weight_macd = to_double (1 / 5),
      sl_weight_bb = to_double (1 / 5), sl_weight_stoch = to_double (1 / 5),
      sl_weight_sma = to_double (1 / 10), sl_weight_volume = to_double (1 / 10),
      sl_fetch_interval_btc = Num 300, sl_max_queue_size = Num 100, sl_cleanup_days = Num 30,
      cb_auto_start_stream = True, cb_require_volume = True, cb_enable_auto_signals = True,
      cb_enable_advanced_patterns = False, cb_enable_notifications = True,
      cb_correlation_analysis = False, cb_auto_cleanup = True\<rparr>"

text \<open>The same form with the RSI bounds the wrong way round.\<close>

definition ex_form_rsi :: form_t where
  "ex_form_rsi = ex_form\<lparr>sl_rsi_oversold := Num 70, sl_rsi_overbought := Num 30\<rparr>"

text \<open>The same form with the stochastic bounds the wrong way round.\<close>

definition ex_form_stoch :: form_t where
  "ex_form_stoch = ex_form\<lparr>sl_stoch_oversold := Num 80, sl_stoch_overbought := Num 20\<rparr>"

text \<open>The same form with the weights \<open>0.3, 0.71, 0, 0, 0, 0\<close>.\<close>

definition ex_form_boundary :: form_t where
  "ex_form_boundary =
     ex_form\<lparr>sl_weight_rsi := to_double (3 / 10), sl_weight_macd := to_double (71 / 100),
             sl_weight_bb := Num 0, sl_weight_stoch := Num 0,
             sl_weight_sma := Num 0, sl_weight_volume := Num 0\<rparr>"

text \<open>The same form without a number for the first weight (the slider is missing or
  empty, so that \<^verbatim>\<open>parseFloat\<close> gives \<open>NaN\<close>).\<close>

definition ex_form_nan :: form_t where
  "ex_form_nan = ex_form\<lparr>sl_weight_rsi := NaN\<rparr>"

text \<open>
  Configurations with given weights, for the weight rule alone, and four lists of weights:
  those of the scenario, \<open>0.5, 0.5, 0.1\<close>, one with a weight that is not a number, and
  one with an infinite weight.
\<close>

definition ex_trading :: "(string \<times> jsnum) list \<Rightarrow> trading_t" where
  "ex_trading w =
     \<lparr>ta_params = ta_params (the (trading (collectFormData ex_form))),
      signal_config = None,
      indicator_weights = Some w\<rparr>"

definition ex_config :: "(string \<times> jsnum) list \<Rightarrow> config_t" where
  "ex_config w = \<lparr>trading = Some (ex_trading w), streaming = None, system = None\<rparr>"

definition ex_weights_scenario :: "(string \<times> jsnum) list" where
  "ex_weights_scenario =
     [(''rsi'', to_double (1 / 5)), (''macd'', to_double (1 / 5)), (''bb'', to_double (1 / 5)),
      (''stoch'', to_double (1 / 5)), (''sma_cross'', to_double (1 / 10)),
      (''volume'', to_double (1 / 10))]"

definition ex_weights_110 :: "(string \<times> jsnum) list" where
  "ex_weights_110 = [(''rsi'', Num (1 / 2)), (''macd'', Num (1 / 2)), (''bb'', to_double (1 / 10))]"

definition ex_weights_nan :: "(string \<times> jsnum) list" where
  "ex_weights_nan = [(''rsi'', NaN), (''macd'', Num (1 / 2))]"

definition ex_weights_infinite :: "(string \<times> jsnum) list" where
  "ex_weights_infinite = [(''rsi'', PosInfinity), (''macd'', Num (1 / 2))]"

text \<open>A manager with unsaved edits in the given form, over the empty snapshot it
  starts with.\<close>

definition ex_state :: "form_t \<Rightarrow> unit settings_state" where
  "ex_state f =
     \<lparr>currentConfig = \<lparr>trading = None, streaming = None, system = None\<rparr>,
      unsavedChanges = True, form = f\<rparr>"

text \<open>
  Signals for the dashboard. \<open>ex_dup_signals\<close> is the scenario of a feed that repeats
  id 1 with other fields; \<open>ex_25_signals\<close> are 25 signals with ids 0 to 24, a later id
  created later. \<open>ex_rendered_dashboard\<close> is a dashboard after one successful cycle.
\<close>

definition ex_signal :: "nat \<Rightarrow> int \<Rightarrow> string \<Rightarrow> string \<Rightarrow> nat signal" where
  "ex_signal i t asset st = \<lparr>signal_id = i, created_at = t, asset_symbol = asset, status = st\<rparr>"

definition ex_dup_signals :: "nat signal list" where
  "ex_dup_signals =
     [ex_signal 1 100 ''BTC'' ''ACTIVE'',
      ex_signal 2 200 ''ETH'' ''ACTIVE'',
      ex_signal 1 300 ''SOL'' ''HIT_TARGET'']"

definition ex_25_signals :: "nat signal list" where
  "ex_25_signals = map (\<lambda>n. ex_signal n (1000 * int n) ''BTC'' ''ACTIVE'') [0..<25]"

definition ex_dashboard :: "(nat, unit) dashboard_state" where
  "ex_dashboard =
     \<lparr>signals_table_body = Some PageMarkup,
      active_signals_count = Some [],
      total_signals_count = Some [],
      signalMonitorEnabled = True,
      lastSignalMonitorCheck = 0,
      signalCheckInterval = 30000,
      duplicateAlertShown = False\<rparr>"

definition ex_good_reply :: "(nat, unit) signals_reply" where
  "ex_good_reply =
     SignalsResult True
       (Some \<lparr>active_signals = Some ex_dup_signals,
              monitor_status_of = Some \<lparr>is_running = True, tracked_signals_count = 2\<rparr>\<rparr>)"

definition ex_rendered_dashboard :: "(nat, unit) dashboard_state" where
  "ex_rendered_dashboard = updateSignalsTable 40000 ex_good_reply ex_dashboard"

section \<open>Rounding to a double\<close>

text \<open>
  Facts about \<open>to_double\<close>: the exponent that \<open>floor_log2\<close> finds, the size of the
  rounded significand, and from these that rounding never crosses a power of two from
  above, that a double of at least one half is a multiple of \<open>2 ^ -53\<close>, and that such
  multiples up to 1 are doubles. With them the test of the weight sum against the double
  \<open>0.01\<close> is the test against the real number \<open>1 / 100\<close>.
\<close>

lemma ilog2_bounds:
  "1 \<le> n \<Longrightarrow> 0 \<le> ilog2 n \<and> 2 ^ nat (ilog2 n) \<le> n \<and> n < 2 * 2 ^ nat (ilog2 n)"
proof (induction n rule: ilog2.induct)
  case (1 n)
  show ?case
  proof (cases "n < 2")
    case True
    with "1.prems" have "n = 1" by simp
    then show ?thesis by (simp add: ilog2.simps)
  next
    case False
    then have h: "1 \<le> n div 2" by simp
    from "1.IH" [OF False h]
    have ih: "0 \<le> ilog2 (n div 2)" "2 ^ nat (ilog2 (n div 2)) \<le> n div 2"
      "n div 2 < 2 * 2 ^ nat (ilog2 (n div 2))" by auto
    have e: "ilog2 n = 1 + ilog2 (n div 2)"
      using False by (subst ilog2.simps) simp
    have s: "nat (1 + ilog2 (n div 2)) = Suc (nat (ilog2 (n div 2)))"
      using ih(1) by simp
    define p :: int where "p = 2 ^ nat (ilog2 (n div 2))"
    have d1: "2 * (n div 2) \<le> n" by presburger
    have d2: "n \<le> 2 * (n div 2) + 1" by presburger
    from ih(2) have p1: "p \<le> n div 2" by (simp only: p_def)
    from ih(3) have p2: "n div 2 < 2 * p" by (simp only: p_def)
    have r1: "0 \<le> ilog2 n" using e ih(1) by linarith
    have "2 ^ nat (ilog2 n) = (2::int) ^ Suc (nat (ilog2 (n div 2)))"
      by (simp only: e s)
    also have "\<dots> = 2 * p" by (simp only: power_Suc p_def)
    finally have r2: "2 ^ nat (ilog2 n) = 2 * p" .
    have b1: "2 * p \<le> n" using p1 d1 by linarith
    have b2: "n < 2 * (2 * p)" using p2 d2 by linarith
    show ?thesis
      unfolding r2 using r1 b1 b2 by blast
  qed
qed

lemma powi_nonneg: "0 \<le> k \<Longrightarrow> (2::rat) powi k = of_int (2 ^ nat k)"
  by (simp add: power_int_def)

lemma powi_neg: "k \<le> 0 \<Longrightarrow> (2::rat) powi k = 1 / of_int (2 ^ nat (- k))"
  by (simp add: power_int_def power_one_over)

lemma floor_log2_bounds:
  assumes "0 < a"
  shows "2 powi floor_log2 a \<le> a \<and> a < 2 powi (floor_log2 a + 1)"
proof (cases "1 \<le> a")
  case True
  let ?z = "\<lfloor>a\<rfloor>"
  from True have z: "1 \<le> ?z" by simp
  note b = ilog2_bounds [OF z]
  have e: "floor_log2 a = ilog2 ?z" using True by (simp add: floor_log2_def)
  have "(of_int (2 ^ nat (ilog2 ?z)) :: rat) \<le> of_int ?z"
    using b by (simp only: of_int_le_iff)
  also have "\<dots> \<le> a" by simp
  finally have lo: "2 powi ilog2 ?z \<le> a"
    using b by (simp add: powi_nonneg)
  have "a < of_int (?z + 1)" by linarith
  also have "\<dots> \<le> of_int (2 * 2 ^ nat (ilog2 ?z))"
    using b by (simp only: of_int_le_iff) simp
  also have "\<dots> = 2 powi (ilog2 ?z + 1)"
    using b by (simp add: powi_nonneg nat_add_distrib)
  finally show ?thesis using lo e by simp
next
  case False
  let ?c = "\<lceil>1 / a\<rceil>"
  from False assms have inv: "1 < 1 / a" by simp
  then have c2: "1 \<le> ?c - 1" by linarith
  note b = ilog2_bounds [OF c2]
  let ?u = "ilog2 (?c - 1)"
  have e: "floor_log2 a = - (1 + ?u)" using False by (simp add: floor_log2_def)
  have "?c \<le> 2 * 2 ^ nat ?u" using b by simp
  then have "(of_int ?c :: rat) \<le> of_int (2 * 2 ^ nat ?u)"
    by (simp only: of_int_le_iff)
  moreover have "1 / a \<le> of_int ?c" by simp
  ultimately have "1 / a \<le> of_int (2 * 2 ^ nat ?u)" by linarith
  then have "1 \<le> of_int (2 * 2 ^ nat ?u) * a"
    using assms by (simp add: field_simps)
  then have lo: "1 / of_int (2 * 2 ^ nat ?u) \<le> a"
    by (simp add: field_simps)
  have "(of_int (2 ^ nat ?u) :: rat) \<le> of_int (?c - 1)"
    using b by (simp only: of_int_le_iff)
  moreover have "of_int (?c - 1) < 1 / a" by linarith
  ultimately have "(of_int (2 ^ nat ?u) :: rat) < 1 / a" by linarith
  then have "of_int (2 ^ nat ?u) * a < 1"
    using assms by (simp add: field_simps)
  then have hi: "a < 1 / of_int (2 ^ nat ?u)"
    by (simp add: field_simps)
  have p1: "(2::rat) powi (- (1 + ?u)) = 1 / of_int (2 * 2 ^ nat ?u)"
    using b by (subst powi_neg) (simp_all add: nat_add_distrib)
  have p2: "(2::rat) powi (- (1 + ?u) + 1) = 1 / of_int (2 ^ nat ?u)"
    using b by (subst powi_neg) simp_all
  show ?thesis
    unfolding e p1 p2 using lo hi by simp
qed

lemma scale2_powi: "scale2 a k = a * 2 powi k"
proof (cases "0 \<le> k")
  case True
  then show ?thesis by (simp add: scale2_def powi_nonneg)
next
  case False
  then show ?thesis by (simp add: scale2_def powi_neg)
qed

lemma round_half_even_of_int: "round_half_even (of_int z) = z"
  by (simp add: round_half_even_def)

lemma round_half_even_ge: "of_int z \<le> m \<Longrightarrow> z \<le> round_half_even m"
proof -
  assume "of_int z \<le> m"
  then have "z \<le> \<lfloor>m\<rfloor>" by (simp add: le_floor_iff)
  moreover have "\<lfloor>m\<rfloor> \<le> round_half_even m"
    by (simp add: round_half_even_def Let_def)
  ultimately show ?thesis by linarith
qed

lemma round_half_even_le: "m \<le> of_int z \<Longrightarrow> round_half_even m \<le> z"
proof -
  assume a: "m \<le> of_int z"
  then have fz: "\<lfloor>m\<rfloor> \<le> z" by (simp add: floor_le_iff)
  show ?thesis
  proof (cases "\<lfloor>m\<rfloor> = z")
    case True
    then have "of_int z \<le> m" by (metis of_int_floor_le)
    with a have "m = of_int z" by simp
    then show ?thesis by (simp add: round_half_even_of_int)
  next
    case False
    with fz have "\<lfloor>m\<rfloor> + 1 \<le> z" by simp
    moreover have "round_half_even m \<le> \<lfloor>m\<rfloor> + 1"
      by (simp add: round_half_even_def Let_def)
    ultimately show ?thesis by linarith
  qed
qed

lemma to_double_pos:
  assumes "0 < x"
  shows "to_double x =
     (let q = max (floor_log2 x - 52) (- 1074); n = round_half_even (x * 2 powi (- q))
      in if 972 \<le> q \<or> (q = 971 \<and> n = 2 ^ 53) then PosInfinity
         else Num (of_int n * 2 powi q))"
proof -
  from assms have "x \<noteq> 0" and "\<bar>x\<bar> = x" by simp_all
  then show ?thesis
    unfolding to_double_def scale2_powi Let_def
    by (simp only: assms if_True if_False)
qed

lemma to_double_minus: "to_double (- x) = js_neg (to_double x)"
  by (cases "x = 0"; cases "0 < x") (auto simp: to_double_def Let_def)

lemma powi_le_cancel: "(2::rat) powi a \<le> x \<Longrightarrow> x < 2 powi b \<Longrightarrow> a < b"
proof (rule ccontr)
  assume h: "(2::rat) powi a \<le> x" "x < 2 powi b" and "\<not> a < b"
  then have "b \<le> a" by simp
  then have "(2::rat) powi b \<le> 2 powi a"
    by (intro power_int_increasing) simp_all
  with h show False by linarith
qed

lemma two_powi_52: "rat_of_int (2 ^ 52) = 2 powi 52"
  by simp

lemma two_powi_53: "rat_of_int (2 ^ 53) = 2 powi 53"
  by simp

lemma powi_split: "(2::rat) powi a * 2 powi b = 2 powi (a + b)"
  by (simp add: power_int_add)

lemma mantissa_le:
  assumes "0 < x"
  shows "round_half_even (x * 2 powi (- max (floor_log2 x - 52) (- 1074))) \<le> 2 ^ 53"
proof -
  let ?e = "floor_log2 x"
  let ?q = "max (?e - 52) (- 1074)"
  from floor_log2_bounds [OF assms] have "x < 2 powi (?e + 1)" by simp
  then have "x * 2 powi (- ?q) < 2 powi (?e + 1) * 2 powi (- ?q)"
    by (simp add: mult_strict_right_mono)
  also have "\<dots> = 2 powi (?e + 1 + - ?q)"
    by (simp only: powi_split)
  also have "\<dots> \<le> 2 powi 53"
    by (intro power_int_increasing) simp_all
  finally have "x * 2 powi (- ?q) \<le> rat_of_int (2 ^ 53)"
    by (simp only: two_powi_53)
  then show ?thesis by (rule round_half_even_le)
qed

lemma mantissa_ge:
  assumes "0 < x"
  shows "2 ^ 52 \<le> round_half_even (x * 2 powi (- (floor_log2 x - 52)))"
proof -
  let ?e = "floor_log2 x"
  from floor_log2_bounds [OF assms] have lo: "2 powi ?e \<le> x" by simp
  have "rat_of_int (2 ^ 52) = 2 powi (?e + (- (?e - 52)))"
    by (simp only: two_powi_52) simp
  also have "\<dots> = 2 powi ?e * 2 powi (- (?e - 52))"
    by (simp only: powi_split)
  also have "\<dots> \<le> x * 2 powi (- (?e - 52))"
    using lo by (intro mult_right_mono) simp_all
  finally show ?thesis by (rule round_half_even_ge)
qed

lemma to_double_ge_powi:
  assumes "2 powi k \<le> x" and "- 1022 \<le> k"
  shows "to_double x = PosInfinity \<or> (\<exists>y. to_double x = Num y \<and> 2 powi k \<le> y)"
proof -
  let ?e = "floor_log2 x"
  have x: "0 < x" using assms(1) zero_less_power_int [of "2::rat" k] by linarith
  from floor_log2_bounds [OF x] assms(1) have "k < ?e + 1"
    by (intro powi_le_cancel [of k x]) simp_all
  then have ke: "k \<le> ?e" by simp
  with assms(2) have q: "max (?e - 52) (- 1074) = ?e - 52" by simp
  let ?n = "round_half_even (x * 2 powi (- (?e - 52)))"
  have "(2::rat) powi k \<le> 2 powi ?e"
    using ke by (intro power_int_increasing) simp_all
  also have "\<dots> = 2 powi (52 + (?e - 52))"
    by simp
  also have "\<dots> = rat_of_int (2 ^ 52) * 2 powi (?e - 52)"
    by (simp only: powi_split [symmetric] two_powi_52)
  also have "\<dots> \<le> of_int ?n * 2 powi (?e - 52)"
    using mantissa_ge [OF x] by (intro mult_right_mono) (simp_all only: of_int_le_iff, simp)
  finally have "(2::rat) powi k \<le> of_int ?n * 2 powi (?e - 52)" .
  then show ?thesis
    by (simp add: to_double_pos [OF x] q Let_def)
qed

text \<open>The test for an infinite result in \<open>to_double\<close> is the test that the rounded
  value reaches \<open>2 ^ 1024\<close>.\<close>

lemma to_double_overflow:
  assumes "0 < x"
  shows "(972 \<le> max (floor_log2 x - 52) (- 1074)
          \<or> (max (floor_log2 x - 52) (- 1074) = 971
              \<and> round_half_even (x * 2 powi (- max (floor_log2 x - 52) (- 1074))) = 2 ^ 53))
         = (2 powi 1024
              \<le> rat_of_int (round_half_even (x * 2 powi (- max (floor_log2 x - 52) (- 1074))))
                  * 2 powi max (floor_log2 x - 52) (- 1074))"
proof -
  let ?q = "max (floor_log2 x - 52) (- 1074)"
  let ?n = "round_half_even (x * 2 powi (- ?q))"
  have nle: "rat_of_int ?n \<le> 2 powi 53"
    unfolding two_powi_53 [symmetric] using mantissa_le [OF assms] by (simp only: of_int_le_iff)
  have n0: "0 \<le> rat_of_int ?n"
  proof -
    have "rat_of_int 0 \<le> x * 2 powi (- ?q)"
      using assms by simp
    then have "0 \<le> ?n" by (rule round_half_even_ge)
    then show ?thesis by simp
  qed
  consider "972 \<le> ?q" | "?q = 971" | "?q \<le> 970" by linarith
  then show ?thesis
  proof cases
    case 1
    then have q: "?q = floor_log2 x - 52" by simp
    have "(2::rat) powi 1024 = 2 powi 52 * 2 powi 972"
      by (simp only: powi_split) simp
    also have "\<dots> \<le> 2 powi 52 * 2 powi ?q"
      using 1 by (intro mult_left_mono power_int_increasing) simp_all
    also have "\<dots> \<le> rat_of_int ?n * 2 powi ?q"
    proof -
      have "2 ^ 52 \<le> ?n" using mantissa_ge [OF assms] by (simp only: q)
      then have "rat_of_int (2 ^ 52) \<le> rat_of_int ?n" by (simp only: of_int_le_iff)
      then have "2 powi 52 \<le> rat_of_int ?n" by (simp only: two_powi_52)
      then show ?thesis by (intro mult_right_mono) simp_all
    qed
    finally have r: "2 powi 1024 \<le> rat_of_int ?n * 2 powi ?q" .
    from 1 r show ?thesis by blast
  next
    case 2
    have p: "(2::rat) powi 1024 = 2 powi 53 * 2 powi 971"
      by (simp only: powi_split) simp
    have "(2 powi 53 * 2 powi 971 \<le> rat_of_int ?n * 2 powi 971) = (2 powi 53 \<le> rat_of_int ?n)"
      by (subst mult_le_cancel_right) simp
    also have "\<dots> = (rat_of_int ?n = 2 powi 53)" using nle by auto
    also have "\<dots> = (?n = 2 ^ 53)"
      unfolding two_powi_53 [symmetric] by (simp only: of_int_eq_iff)
    finally have "(2 powi 1024 \<le> rat_of_int ?n * 2 powi ?q) = (?n = 2 ^ 53)"
      by (simp only: p 2)
    with 2 show ?thesis by auto
  next
    case 3
    have "rat_of_int ?n * 2 powi ?q \<le> 2 powi 53 * 2 powi 970"
      using nle n0 3 by (intro mult_mono power_int_increasing) simp_all
    also have "\<dots> = 2 powi 1023" by (simp only: powi_split) simp
    also have "\<dots> < 2 powi 1024" by (intro power_int_strict_increasing) simp_all
    finally have r: "\<not> 2 powi 1024 \<le> rat_of_int ?n * 2 powi ?q" by simp
    from 3 have "\<not> 972 \<le> ?q" "?q \<noteq> 971" by linarith+
    with r show ?thesis by blast
  qed
qed

lemma grid_conv: "rat_of_int j / 2 ^ 53 = of_int j * 2 powi (- 53)"
  by (simp add: power_int_minus inverse_eq_divide)

lemma to_double_nonpos:
  assumes "x \<le> 0" and "to_double x = Num s"
  shows "s \<le> 0"
proof (cases "x = 0")
  case True
  with assms show ?thesis by (simp add: to_double_def)
next
  case False
  with assms(1) have p: "0 < - x" by simp
  let ?q = "max (floor_log2 (- x) - 52) (- 1074)"
  let ?n = "round_half_even (- x * 2 powi (- ?q))"
  have "0 \<le> - x * 2 powi (- ?q)"
    using p by (intro mult_nonneg_nonneg) simp_all
  then have "rat_of_int 0 \<le> - x * 2 powi (- ?q)"
    by simp
  then have n: "0 \<le> ?n" by (rule round_half_even_ge)
  have "to_double x = js_neg (to_double (- x))"
    using to_double_minus [of "- x"] by simp
  with assms(2) have "js_neg (to_double (- x)) = Num s" by simp
  then have "s = - (of_int ?n * 2 powi ?q)"
    unfolding to_double_pos [OF p] Let_def by (auto split: if_splits)
  moreover have "0 \<le> rat_of_int ?n * 2 powi ?q"
    using n by simp
  ultimately show ?thesis by simp
qed

lemma to_double_grid:
  assumes "to_double x = Num s" and "1 / 2 \<le> s"
  shows "\<exists>j::int. 0 < j \<and> s = of_int j / 2 ^ 53"
proof -
  have x: "0 < x"
  proof (rule ccontr)
    assume "\<not> 0 < x"
    then have "x \<le> 0" by simp
    from to_double_nonpos [OF this assms(1)] assms(2) show False by simp
  qed
  let ?q = "max (floor_log2 x - 52) (- 1074)"
  let ?n = "round_half_even (x * 2 powi (- ?q))"
  from assms(1) have s: "s = of_int ?n * 2 powi ?q"
    unfolding to_double_pos [OF x] Let_def by (auto split: if_splits)
  have nle: "?n \<le> 2 ^ 53" by (rule mantissa_le [OF x])
  then have nle': "rat_of_int ?n \<le> 2 powi 53"
    unfolding two_powi_53 [symmetric] by (simp only: of_int_le_iff)
  have npos: "0 < ?n"
  proof (rule ccontr)
    assume "\<not> 0 < ?n"
    then have "rat_of_int ?n \<le> 0" by simp
    then have "rat_of_int ?n * 2 powi ?q \<le> 0"
      by (simp add: mult_le_0_iff)
    with s assms(2) show False by simp
  qed
  have q54: "- 54 \<le> ?q"
  proof (rule ccontr)
    assume "\<not> - 54 \<le> ?q"
    then have "?q \<le> - 55" by simp
    then have "(2::rat) powi ?q \<le> 2 powi (- 55)"
      by (intro power_int_increasing) simp_all
    then have "rat_of_int ?n * 2 powi ?q \<le> 2 powi 53 * 2 powi (- 55)"
      using nle' npos by (intro mult_mono) simp_all
    also have "\<dots> = 2 powi (- 2)" by (simp only: powi_split) simp
    also have "\<dots> < 1 / 2" by (simp add: power_int_minus)
    finally show False using s assms(2) by simp
  qed
  show ?thesis
  proof (cases "?q = - 54")
    case True
    have b: "1 / 2 \<le> rat_of_int ?n * 2 powi (- 54)"
      using s assms(2) True by simp
    have "(2::rat) powi 53 = 1 / 2 * 2 powi 54"
      by simp
    also have "\<dots> \<le> rat_of_int ?n * 2 powi (- 54) * 2 powi 54"
      using b by (intro mult_right_mono) simp_all
    also have "\<dots> = rat_of_int ?n * (2 powi (- 54) * 2 powi 54)"
      by (simp only: mult.assoc)
    also have "\<dots> = rat_of_int ?n"
      by (simp only: powi_split) simp
    finally have "(2::rat) powi 53 \<le> rat_of_int ?n" .
    with nle' have "rat_of_int ?n = 2 powi 53" by simp
    with s True have "s = 2 powi 53 * 2 powi (- 54)" by simp
    also have "\<dots> = rat_of_int (2 ^ 52) / 2 ^ 53"
      by (simp add: power_int_minus)
    finally show ?thesis by (intro exI [of _ "2 ^ 52"]) simp
  next
    case False
    with q54 have q53: "0 \<le> ?q + 53" by simp
    let ?j = "?n * 2 ^ nat (?q + 53)"
    have "rat_of_int ?j / 2 ^ 53 = of_int ?n * (2 powi (?q + 53) * 2 powi (- 53))"
      by (simp add: grid_conv powi_nonneg [OF q53])
    also have "\<dots> = of_int ?n * 2 powi ?q"
      by (simp only: powi_split) simp
    finally have e: "rat_of_int ?j / 2 ^ 53 = of_int ?n * 2 powi ?q" .
    have "s = rat_of_int ?j / 2 ^ 53"
      by (rule trans [OF s e [symmetric]])
    moreover have "0 < ?j" using npos by simp
    ultimately show ?thesis by blast
  qed
qed

lemma to_double_exact_pos:
  assumes "0 < j" and "j \<le> 2 ^ 53"
  shows "to_double (rat_of_int j / 2 ^ 53) = Num (rat_of_int j / 2 ^ 53)"
proof -
  define x where "x = rat_of_int j * 2 powi (- 53)"
  have xg: "rat_of_int j / 2 ^ 53 = x" by (simp only: x_def grid_conv)
  have jpos: "1 \<le> rat_of_int j" using assms(1) by simp
  have jle: "rat_of_int j \<le> 2 powi 53"
    unfolding two_powi_53 [symmetric] using assms(2) by (simp only: of_int_le_iff)
  have x: "0 < x" using assms(1) by (simp add: x_def)
  let ?e = "floor_log2 x"
  note b = floor_log2_bounds [OF x]
  have "x \<le> 2 powi 53 * 2 powi (- 53)"
    unfolding x_def using jle by (intro mult_right_mono) simp_all
  also have "\<dots> = 1" by (simp only: powi_split) simp
  finally have x1: "x \<le> 1" .
  have "(2::rat) powi (- 53) = 1 * 2 powi (- 53)" by simp
  also have "\<dots> \<le> x"
    unfolding x_def using jpos by (intro mult_right_mono) simp_all
  finally have xlo: "(2::rat) powi (- 53) \<le> x" .
  have "?e < 1"
    using b x1 by (intro powi_le_cancel [of ?e x 1]) simp_all
  then have e0: "?e \<le> 0" by simp
  have "- 53 < ?e + 1"
    using b xlo by (intro powi_le_cancel [of "- 53" x]) simp_all
  then have e53: "- 53 \<le> ?e" by simp
  have q: "max (?e - 52) (- 1074) = ?e - 52" using e53 by simp
  have m: "x * 2 powi (- (?e - 52)) = rat_of_int j * 2 powi (- 1 - ?e)"
  proof -
    have "x * 2 powi (- (?e - 52)) = rat_of_int j * (2 powi (- 53) * 2 powi (- (?e - 52)))"
      by (simp only: x_def mult.assoc)
    also have "\<dots> = rat_of_int j * 2 powi (- 53 + - (?e - 52))"
      by (simp only: powi_split)
    also have "- 53 + - (?e - 52) = - 1 - ?e" by simp
    finally show ?thesis .
  qed
  have ov: "\<not> (972 \<le> ?e - 52 \<or> (?e - 52 = 971 \<and> n = 2 ^ 53))" for n :: int
    using e0 by simp
  show ?thesis
  proof (cases "?e = 0")
    case True
    with b have "1 \<le> x" by simp
    with x1 have x_is: "x = 1" by simp
    have "x * 2 powi (- (?e - 52)) = rat_of_int (2 ^ 52)"
      using True x_is by simp
    then have n: "round_half_even (x * 2 powi (- (?e - 52))) = 2 ^ 52"
      by (simp only: round_half_even_of_int)
    have "rat_of_int (2 ^ 52) * 2 powi (?e - 52) = x"
      using True x_is by (simp add: power_int_minus)
    then have "to_double x = Num x"
      unfolding to_double_pos [OF x] Let_def q n using ov by (simp only: if_False)
    then show ?thesis by (simp only: xg)
  next
    case False
    with e0 have e1: "0 \<le> - 1 - ?e" by simp
    let ?z = "j * 2 ^ nat (- 1 - ?e)"
    have "x * 2 powi (- (?e - 52)) = rat_of_int ?z"
      by (simp only: m powi_nonneg [OF e1]) simp
    then have n: "round_half_even (x * 2 powi (- (?e - 52))) = ?z"
      by (simp only: round_half_even_of_int)
    have "rat_of_int ?z * 2 powi (?e - 52)
          = rat_of_int j * (2 powi (- 1 - ?e) * 2 powi (?e - 52))"
      by (simp add: powi_nonneg [OF e1])
    also have "\<dots> = rat_of_int j * 2 powi (- 1 - ?e + (?e - 52))"
      by (simp only: powi_split)
    also have "- 1 - ?e + (?e - 52) = - 53" by simp
    finally have "rat_of_int ?z * 2 powi (?e - 52) = x" by (simp only: x_def)
    then have "to_double x = Num x"
      unfolding to_double_pos [OF x] Let_def q n using ov by (simp only: if_False)
    then show ?thesis by (simp only: xg)
  qed
qed

lemma to_double_exact:
  assumes "\<bar>j\<bar> \<le> 2 ^ 53"
  shows "to_double (rat_of_int j / 2 ^ 53) = Num (rat_of_int j / 2 ^ 53)"
proof -
  consider "j = 0" | "0 < j" | "j < 0" by linarith
  then show ?thesis
  proof cases
    case 1
    then show ?thesis by (simp add: to_double_def)
  next
    case 2
    with assms show ?thesis by (intro to_double_exact_pos) simp_all
  next
    case 3
    with assms have "to_double (rat_of_int (- j) / 2 ^ 53) = Num (rat_of_int (- j) / 2 ^ 53)"
      by (intro to_double_exact_pos) simp_all
    moreover have "rat_of_int j / 2 ^ 53 = - (rat_of_int (- j) / 2 ^ 53)" by simp
    ultimately show ?thesis
      by (simp only: to_double_minus js_neg.simps)
  qed
qed

lemma to_double_hundredth:
  "to_double (1 / 100) = Num (5764607523034235 / 576460752303423488)"
  by code_simp

lemma js_sub_Num: "js_sub (Num s) (Num 1) = to_double (s - 1)"
  by (simp add: js_sub_def)

lemma threshold_left:
  "(5764607523034235 / 576460752303423488 < (r::rat) / 9007199254740992)
   = (5764607523034235 < 64 * r)"
  by (simp add: field_simps)

lemma threshold_right:
  "(1 / 100 < (r::rat) / 9007199254740992) = (9007199254740992 < 100 * r)"
  by (simp add: field_simps)

lemma threshold_int:
  "((5764607523034235::int) < 64 * i) = (9007199254740992 < 100 * i)"
proof (cases "i \<le> 90071992547409")
  case True
  then show ?thesis by linarith
next
  case False
  then show ?thesis by linarith
qed

lemma grid_threshold:
  fixes i :: int
  shows "(5764607523034235 / 576460752303423488 < \<bar>rat_of_int i / 2 ^ 53\<bar>)
         = (1 / 100 < \<bar>rat_of_int i / 2 ^ 53\<bar>)"
proof -
  have a: "\<bar>rat_of_int i / 2 ^ 53\<bar> = rat_of_int \<bar>i\<bar> / 9007199254740992" by simp
  have "(5764607523034235 < 64 * rat_of_int \<bar>i\<bar>)
        = (rat_of_int 5764607523034235 < rat_of_int (64 * \<bar>i\<bar>))" by simp
  also have "\<dots> = (5764607523034235 < 64 * \<bar>i\<bar>)" by (simp only: of_int_less_iff)
  also have "\<dots> = (9007199254740992 < 100 * \<bar>i\<bar>)" by (rule threshold_int)
  also have "\<dots> = (rat_of_int 9007199254740992 < rat_of_int (100 * \<bar>i\<bar>))"
    by (simp only: of_int_less_iff)
  also have "\<dots> = (9007199254740992 < 100 * rat_of_int \<bar>i\<bar>)" by simp
  finally show ?thesis by (simp only: a threshold_left threshold_right)
qed

lemma tolerance_exact:
  assumes "to_double x = Num s"
  shows "js_gt (Math_abs (js_sub (Num s) (Num 1))) (to_double (1 / 100)) = (1 / 100 < \<bar>s - 1\<bar>)"
proof -
  consider "2 < s" | "s < 1 / 2" | "1 / 2 \<le> s" "s \<le> 2" by linarith
  then show ?thesis
  proof cases
    case 1
    then have "(2::rat) powi 0 \<le> s - 1" by simp
    from to_double_ge_powi [OF this]
    have "to_double (s - 1) = PosInfinity \<or> (\<exists>y. to_double (s - 1) = Num y \<and> 1 \<le> y)"
      by simp
    then have "js_gt (Math_abs (to_double (s - 1))) (Num (5764607523034235 / 576460752303423488))"
      by auto
    moreover have "1 / 100 < \<bar>s - 1\<bar>" using 1 by simp
    ultimately show ?thesis by (simp only: js_sub_Num to_double_hundredth)
  next
    case 2
    then have "(2::rat) powi (- 1) \<le> 1 - s" by (simp add: power_int_minus)
    from to_double_ge_powi [OF this]
    have "to_double (1 - s) = PosInfinity \<or> (\<exists>y. to_double (1 - s) = Num y \<and> 1 / 2 \<le> y)"
      by (simp add: power_int_minus)
    moreover have "to_double (s - 1) = js_neg (to_double (1 - s))"
      using to_double_minus [of "1 - s"] by simp
    ultimately have "js_gt (Math_abs (to_double (s - 1)))
                       (Num (5764607523034235 / 576460752303423488))"
      by auto
    moreover have "1 / 100 < \<bar>s - 1\<bar>" using 2 by simp
    ultimately show ?thesis by (simp only: js_sub_Num to_double_hundredth)
  next
    case 3
    from to_double_grid [OF assms 3(1)]
    obtain j :: int where j: "0 < j" "s = rat_of_int j / 2 ^ 53" by blast
    from 3(2) j have "rat_of_int j \<le> rat_of_int (2 ^ 54)" by (simp add: field_simps)
    then have j54: "j \<le> 2 ^ 54" by (simp only: of_int_le_iff)
    let ?i = "j - 2 ^ 53"
    have d: "s - 1 = rat_of_int ?i / 2 ^ 53" using j(2) by (simp add: field_simps)
    have "\<bar>?i\<bar> \<le> 2 ^ 53" using j(1) j54 by simp
    from to_double_exact [OF this]
    have ex: "to_double (s - 1) = Num (rat_of_int ?i / 2 ^ 53)" by (simp only: d)
    have "js_gt (Math_abs (js_sub (Num s) (Num 1))) (to_double (1 / 100))
          = (5764607523034235 / 576460752303423488 < \<bar>rat_of_int ?i / 2 ^ 53\<bar>)"
      by (simp only: js_sub_Num ex to_double_hundredth Math_abs.simps js_gt.simps)
    also have "\<dots> = (1 / 100 < \<bar>rat_of_int ?i / 2 ^ 53\<bar>)"
      by (rule grid_threshold)
    finally show ?thesis by (simp only: d)
  qed
qed

lemma js_add_Num: "js_add a b = Num s \<Longrightarrow> \<exists>x. to_double x = Num s"
  by (cases a; cases b) auto

lemma foldl_js_add_double:
  "foldl js_add (Num 0) vs = Num s \<Longrightarrow> \<exists>x. to_double x = Num s"
proof (induction vs arbitrary: s rule: rev_induct)
  case Nil
  then have "to_double 0 = Num s" by (simp add: to_double_def)
  then show ?case by blast
next
  case (snoc v vs)
  then show ?case by (auto dest: js_add_Num)
qed

lemma totalWeight_double:
  "totalWeight weights = Num s \<Longrightarrow> \<exists>x. to_double x = Num s"
  unfolding totalWeight_def by (rule foldl_js_add_double)

lemma totalWeight_tolerance:
  assumes "totalWeight weights = Num s"
  shows "js_gt (Math_abs (js_sub (totalWeight weights) (Num 1))) (to_double (1 / 100))
         = (1 / 100 < \<bar>s - 1\<bar>)"
proof -
  from totalWeight_double [OF assms] obtain x where "to_double x = Num s" ..
  from tolerance_exact [OF this] show ?thesis by (simp only: assms)
qed

section \<open>Validation\<close>

lemma validateConfig_valid_iff:
  "validateConfig config = Inr v \<Longrightarrow> valid v = (errors v = [])"
  unfolding validateConfig_def
  by (auto simp: Let_def split: option.splits)

lemma validateConfig_collectFormData_returns:
  "\<exists>v. validateConfig (collectFormData f) = Inr v"
  by (simp add: validateConfig_def collectFormData_def Let_def)

lemma isWeightSumError_simps:
  "\<not> isWeightSumError ''RSI oversold deve ser menor que overbought''"
  "\<not> isWeightSumError ''SMA curta deve ser menor que SMA longa''"
  "\<not> isWeightSumError ''EMA curta deve ser menor que EMA longa''"
  "isWeightSumError (weightSumMessage tw)"
  by (simp_all add: isWeightSumError_def weightSumMessage_def)

text \<open>The RSI pair is checked: a configuration with RSI oversold at or above RSI
  overbought gets the RSI message among its errors.\<close>

lemma validateConfig_rsi_pair:
  assumes "validateConfig config = Inr v"
    and "trading config = Some tr"
    and "ta_params tr = Some ta"
    and "js_ge (rsi_oversold ta) (rsi_overbought ta)"
  shows "''RSI oversold deve ser menor que overbought'' \<in> set (errors v)"
  using assms unfolding validateConfig_def
  by (auto simp: Let_def split: option.splits)

text \<open>No rule reads the stochastic bounds: changing them changes nothing in the result.\<close>

lemma validateConfig_ignores_stoch:
  assumes "trading config = Some tr" and "ta_params tr = Some ta"
  shows "validateConfig
           (config\<lparr>trading := Some (tr\<lparr>ta_params :=
              Some (ta\<lparr>stoch_oversold := a, stoch_overbought := b\<rparr>)\<rparr>)\<rparr>)
         = validateConfig config"
  using assms by (simp add: validateConfig_def)

text \<open>
  C10. A configuration without the \<open>trading\<close> section is valid: no rule is evaluated and
  the error list is empty, whatever the other sections hold.
\<close>

theorem validateConfig_no_trading:
  "validateConfig (config\<lparr>trading := None\<rparr>) = Inr \<lparr>valid = True, errors = []\<rparr>"
  by (simp add: validateConfig_def)

text \<open>
  C2, at the stochastic pair. The form \<open>ex_form_stoch\<close> has stochastic oversold 80 and
  overbought 20, and \<open>validateConfig\<close> finds it valid with no error: only the RSI pair is
  compared. \<open>saveSettings\<close> then posts it to the server.
\<close>

theorem validateConfig_stoch_pair_unchecked:
  "js_ge (sl_stoch_oversold ex_form_stoch) (sl_stoch_overbought ex_form_stoch)
   \<and> validateConfig (collectFormData ex_form_stoch) = Inr \<lparr>valid = True, errors = []\<rparr>
   \<and> filter isFetch (snd (saveSettings FetchRejected (ex_state ex_form_stoch))) =
       [Fetch \<lparr>url = ''/settings/api/save-config'', http_method = ''POST'',
               body_config = collectFormData ex_form_stoch,
               body_apply_immediately = True\<rparr>]"
proof -
  have v: "validateConfig (collectFormData ex_form_stoch) = Inr \<lparr>valid = True, errors = []\<rparr>"
    by code_simp
  have "js_ge (sl_stoch_oversold ex_form_stoch) (sl_stoch_overbought ex_form_stoch)"
    by (simp add: ex_form_stoch_def ex_form_def)
  moreover have "filter isFetch (snd (saveSettings FetchRejected (ex_state ex_form_stoch))) =
       [Fetch \<lparr>url = ''/settings/api/save-config'', http_method = ''POST'',
               body_config = collectFormData ex_form_stoch,
               body_apply_immediately = True\<rparr>]"
    by (simp add: saveSettings_def Let_def v ex_state_def isFetch_def)
  ultimately show ?thesis using v by simp
qed

text \<open>The weight-sum errors of a result are decided by the one comparison.\<close>

lemma validateConfig_weight_error:
  assumes "validateConfig config = Inr v"
    and "trading config = Some tr"
    and "indicator_weights tr = Some weights"
  shows "filter isWeightSumError (errors v) =
           (if js_gt (Math_abs (js_sub (totalWeight weights) (Num 1))) (to_double (1 / 100))
            then [weightSumMessage (totalWeight weights)] else [])"
  using assms unfolding validateConfig_def
  by (auto simp: Let_def isWeightSumError_simps split: option.splits)

text \<open>
  C3, as the code has it. The weights are added as doubles, in order, from 0. When the sum
  so computed is a number \<open>s\<close> within 0.01 of 1, or is \<open>NaN\<close>, the error list holds no
  weight-sum error. When it is a number further than 0.01 from 1, or is infinite, the
  list holds exactly one, and its message carries \<open>Math.round(s * 100)\<close> as JavaScript
  prints it, the product being rounded to a double first.
\<close>

theorem validateConfig_weight_sum:
  assumes "validateConfig config = Inr v"
    and "trading config = Some tr"
    and "indicator_weights tr = Some weights"
  shows "(totalWeight weights = NaN \<longrightarrow> filter isWeightSumError (errors v) = [])
       \<and> (totalWeight weights = Num s \<and> \<bar>s - 1\<bar> \<le> 1 / 100 \<longrightarrow>
            filter isWeightSumError (errors v) = [])
       \<and> (totalWeight weights = Num s \<and> 1 / 100 < \<bar>s - 1\<bar> \<longrightarrow>
            filter isWeightSumError (errors v) =
              [''Soma dos pesos deve ser 100% (atual: ''
                 @ Number_toString (Math_round (js_mul (Num s) (Num 100))) @ ''%)''])
       \<and> (totalWeight weights = PosInfinity \<longrightarrow>
            filter isWeightSumError (errors v) =
              [''Soma dos pesos deve ser 100% (atual: Infinity%)''])
       \<and> (totalWeight weights = NegInfinity \<longrightarrow>
            filter isWeightSumError (errors v) =
              [''Soma dos pesos deve ser 100% (atual: -Infinity%)''])"
proof -
  note e = validateConfig_weight_error [OF assms]
  have nan: "totalWeight weights = NaN \<longrightarrow> filter isWeightSumError (errors v) = []"
    by (simp add: e js_sub_def)
  have fin: "filter isWeightSumError (errors v) =
               (if 1 / 100 < \<bar>s - 1\<bar> then [weightSumMessage (Num s)] else [])"
    if "totalWeight weights = Num s"
    using totalWeight_tolerance [OF that] by (simp only: e that)
  have pinf: "totalWeight weights = PosInfinity \<longrightarrow>
      filter isWeightSumError (errors v) = [''Soma dos pesos deve ser 100% (atual: Infinity%)'']"
    by (simp add: e js_sub_def to_double_hundredth weightSumMessage_def)
  have ninf: "totalWeight weights = NegInfinity \<longrightarrow>
      filter isWeightSumError (errors v) = [''Soma dos pesos deve ser 100% (atual: -Infinity%)'']"
    by (simp add: e js_sub_def to_double_hundredth weightSumMessage_def)
  show ?thesis
    using nan fin pinf ninf by (auto simp: weightSumMessage_def)
qed

theorem validateConfig_weight_sum_witness:
  "totalWeight ex_weights_scenario = Num 1
   \<and> filter isWeightSumError (errors \<lparr>valid = True, errors = []\<rparr>) = []
   \<and> totalWeight ex_weights_110 = Num (2476979795053773 / 2251799813685248)
   \<and> filter isWeightSumError
        (errors \<lparr>valid = False, errors = [''Soma dos pesos deve ser 100% (atual: 110%)'']\<rparr>)
       = [''Soma dos pesos deve ser 100% (atual: 110%)'']
   \<and> totalWeight ex_weights_nan = NaN
   \<and> totalWeight ex_weights_infinite = PosInfinity
   \<and> filter isWeightSumError
        (errors \<lparr>valid = False,
                 errors = [''Soma dos pesos deve ser 100% (atual: Infinity%)'']\<rparr>)
       = [''Soma dos pesos deve ser 100% (atual: Infinity%)'']"
proof -
  have v1: "validateConfig (ex_config ex_weights_scenario) = Inr \<lparr>valid = True, errors = []\<rparr>"
    by code_simp
  have s1: "totalWeight ex_weights_scenario = Num 1"
    by code_simp
  have v2: "validateConfig (ex_config ex_weights_110) =
              Inr \<lparr>valid = False, errors = [''Soma dos pesos deve ser 100% (atual: 110%)'']\<rparr>"
    by code_simp
  have s2: "totalWeight ex_weights_110 = Num (2476979795053773 / 2251799813685248)"
    by code_simp
  have m2: "Number_toString
              (Math_round (js_mul (Num (2476979795053773 / 2251799813685248)) (Num 100)))
            = ''110''"
    by code_simp
  have v3: "validateConfig (ex_config ex_weights_nan) = Inr \<lparr>valid = True, errors = []\<rparr>"
    by code_simp
  have s3: "totalWeight ex_weights_nan = NaN"
    by code_simp
  have v4: "validateConfig (ex_config ex_weights_infinite) =
              Inr \<lparr>valid = False,
                    errors = [''Soma dos pesos deve ser 100% (atual: Infinity%)'']\<rparr>"
    by code_simp
  have s4: "totalWeight ex_weights_infinite = PosInfinity"
    by code_simp
  have t: "trading (ex_config w) = Some (ex_trading w)"
    "indicator_weights (ex_trading w) = Some w" for w
    by (simp_all add: ex_config_def ex_trading_def)
  from validateConfig_weight_sum [OF v1 t, of 1] s1
  have r1: "filter isWeightSumError (errors \<lparr>valid = True, errors = []\<rparr>) = []"
    by simp
  from validateConfig_weight_sum [OF v2 t, of "2476979795053773 / 2251799813685248"] s2 m2
  have r2: "filter isWeightSumError
        (errors \<lparr>valid = False, errors = [''Soma dos pesos deve ser 100% (atual: 110%)'']\<rparr>)
       = [''Soma dos pesos deve ser 100% (atual: 110%)'']"
    by simp
  from validateConfig_weight_sum [OF v3 t] s3
  have r3: "filter isWeightSumError (errors \<lparr>valid = True, errors = []\<rparr>) = []"
    by simp
  from validateConfig_weight_sum [OF v4 t] s4
  have r4: "filter isWeightSumError
        (errors \<lparr>valid = False,
                 errors = [''Soma dos pesos deve ser 100% (atual: Infinity%)'']\<rparr>)
       = [''Soma dos pesos deve ser 100% (atual: Infinity%)'']"
    by simp
  show ?thesis
    using s1 r1 s2 r2 s3 r3 s4 r4 by simp
qed

text \<open>
  C3, as stated, fails. The weights 0.3 and 0.71 (and four zeros) sum to within 0.01 of 1,
  as decimals and as the doubles they denote; the sum computed in doubles is the double
  \<open>1.01\<close>, which lies further from 1 than the double \<open>0.01\<close>, and \<open>validateConfig\<close>
  reports a weight-sum error of 101%. And when a weight is \<open>NaN\<close> the sum is \<open>NaN\<close>, which
  is not within 0.01 of 1, and no weight-sum error is reported: the form is valid.
\<close>

theorem weight_sum_tolerance_not_exact:
  "sl_weight_rsi ex_form_boundary = Num (5404319552844595 / 18014398509481984)
   \<and> sl_weight_macd ex_form_boundary = Num (799388933858263 / 1125899906842624)
   \<and> \<bar>5404319552844595 / 18014398509481984 + 799388933858263 / 1125899906842624 - 1\<bar>
        \<le> (1 / 100 :: rat)
   \<and> \<bar>3 / 10 + 71 / 100 - 1\<bar> \<le> (1 / 100 :: rat)
   \<and> validateConfig (collectFormData ex_form_boundary) =
       Inr \<lparr>valid = False, errors = [''Soma dos pesos deve ser 100% (atual: 101%)'']\<rparr>
   \<and> sl_weight_rsi ex_form_nan = NaN
   \<and> validateConfig (collectFormData ex_form_nan) = Inr \<lparr>valid = True, errors = []\<rparr>"
proof -
  have w1: "sl_weight_rsi ex_form_boundary = Num (5404319552844595 / 18014398509481984)"
    by code_simp
  have w2: "sl_weight_macd ex_form_boundary = Num (799388933858263 / 1125899906842624)"
    by code_simp
  have v: "validateConfig (collectFormData ex_form_boundary) =
       Inr \<lparr>valid = False, errors = [''Soma dos pesos deve ser 100% (atual: 101%)'']\<rparr>"
    by code_simp
  have n1: "sl_weight_rsi ex_form_nan = NaN"
    by (simp add: ex_form_nan_def)
  have n2: "validateConfig (collectFormData ex_form_nan) = Inr \<lparr>valid = True, errors = []\<rparr>"
    by code_simp
  show ?thesis
    using w1 w2 v n1 n2 by simp
qed

section \<open>Saving\<close>

text \<open>
  C1. When the validation of the form data returns a non-empty error list, \<open>saveSettings\<close>
  stops there: the run consists of the loading notice, one error notification that holds
  the error list joined with commas, and the end of the loading notice; it contains no
  request, whatever the server would have answered, and the state is as it was.
\<close>

theorem saveSettings_invalid_aborts:
  assumes "validateConfig (collectFormData (form s)) = Inr v"
    and "errors v \<noteq> []"
  shows "saveSettings reply s =
           (s, [ShowLoading msg_saving,
                ShowError (msg_invalid_prefix @ join '', '' (errors v)),
                HideLoading])
         \<and> filter isFetch (snd (saveSettings reply s)) = []"
proof -
  from assms have nv: "\<not> valid v"
    by (simp add: validateConfig_valid_iff)
  have run: "saveSettings reply s =
           (s, [ShowLoading msg_saving,
                ShowError (msg_invalid_prefix @ join '', '' (errors v)),
                HideLoading])"
    using assms(1) nv by (simp add: saveSettings_def Let_def)
  show ?thesis
    by (simp add: run isFetch_def)
qed

theorem saveSettings_invalid_aborts_witness:
  "validateConfig (collectFormData (form (ex_state ex_form_rsi))) =
     Inr \<lparr>valid = False, errors = [''RSI oversold deve ser menor que overbought'']\<rparr>
   \<and> saveSettings (BodyObject (Some ''success'') None) (ex_state ex_form_rsi) =
       (ex_state ex_form_rsi,
        [ShowLoading msg_saving,
         ShowError (msg_invalid_prefix @ ''RSI oversold deve ser menor que overbought''),
         HideLoading])
   \<and> filter isFetch
        (snd (saveSettings (BodyObject (Some ''success'') None) (ex_state ex_form_rsi))) = []"
proof -
  have v: "validateConfig (collectFormData (form (ex_state ex_form_rsi))) =
     Inr \<lparr>valid = False, errors = [''RSI oversold deve ser menor que overbought'']\<rparr>"
    by code_simp
  have ne: "errors \<lparr>valid = False,
                    errors = [''RSI oversold deve ser menor que overbought'']\<rparr> \<noteq> []"
    by simp
  show ?thesis
    using saveSettings_invalid_aborts [OF v ne, of "BodyObject (Some ''success'') None"] v
    by (simp add: isFetch_def)
qed

text \<open>
  C7. A save that does not succeed (the fetch is rejected, the body is not JSON or is
  null, or its \<open>status\<close> is not \<open>success\<close>) leaves the whole state as it was: the
  dirty flag, the snapshot and the form. A save of valid form data that succeeds merges
  the form data into the snapshot and clears the dirty flag. So the state changes only on
  a successful save.
\<close>

theorem saveSettings_failure_keeps_state:
  "(\<not> saveSucceeds reply \<longrightarrow>
      fst (saveSettings reply s) = s
      \<and> unsavedChanges (fst (saveSettings reply s)) = unsavedChanges s
      \<and> currentConfig (fst (saveSettings reply s)) = currentConfig s
      \<and> form (fst (saveSettings reply s)) = form s)
   \<and> (saveSucceeds reply \<and> validateConfig (collectFormData (form s)) = Inr v \<and> valid v \<longrightarrow>
        fst (saveSettings reply s) =
          s\<lparr>currentConfig := spread (currentConfig s) (collectFormData (form s)),
            unsavedChanges := False\<rparr>)
   \<and> (fst (saveSettings reply s) \<noteq> s \<longrightarrow> saveSucceeds reply)"
proof -
  have keep: "fst (saveSettings reply s) = s" if "\<not> saveSucceeds reply"
    using that
    by (auto simp: saveSettings_def saveSucceeds_def Let_def
             split: sum.splits server_reply.splits)
  have saved: "fst (saveSettings reply s) =
          s\<lparr>currentConfig := spread (currentConfig s) (collectFormData (form s)),
            unsavedChanges := False\<rparr>"
    if "saveSucceeds reply" "validateConfig (collectFormData (form s)) = Inr v" "valid v"
    using that
    by (auto simp: saveSettings_def saveSucceeds_def Let_def split: server_reply.splits)
  show ?thesis
    using keep saved by auto
qed

theorem saveSettings_failure_keeps_state_witness:
  "\<not> saveSucceeds FetchRejected
   \<and> fst (saveSettings FetchRejected (ex_state ex_form)) = ex_state ex_form
   \<and> unsavedChanges (fst (saveSettings FetchRejected (ex_state ex_form)))
   \<and> \<not> saveSucceeds (BodyObject (Some ''error'') (Some ''rejected''))
   \<and> fst (saveSettings (BodyObject (Some ''error'') (Some ''rejected'')) (ex_state ex_form))
       = ex_state ex_form
   \<and> saveSucceeds (BodyObject (Some ''success'') None)
   \<and> validateConfig (collectFormData (form (ex_state ex_form))) =
       Inr \<lparr>valid = True, errors = []\<rparr>
   \<and> fst (saveSettings (BodyObject (Some ''success'') None) (ex_state ex_form)) =
       \<lparr>currentConfig = collectFormData ex_form, unsavedChanges = False, form = ex_form\<rparr>
   \<and> fst (saveSettings (BodyObject (Some ''success'') None) (ex_state ex_form))
       \<noteq> ex_state ex_form"
proof -
  have f1: "\<not> saveSucceeds FetchRejected"
    by (simp add: saveSucceeds_def)
  have f2: "\<not> saveSucceeds (BodyObject (Some ''error'') (Some ''rejected''))"
    by (simp add: saveSucceeds_def)
  have ok: "saveSucceeds (BodyObject (Some ''success'') None)"
    by (simp add: saveSucceeds_def)
  have v: "validateConfig (collectFormData (form (ex_state ex_form))) =
       Inr \<lparr>valid = True, errors = []\<rparr>"
    by code_simp
  have vv: "valid \<lparr>valid = True, errors = []\<rparr>" by simp
  have dirty: "unsavedChanges (ex_state ex_form)"
    by (simp add: ex_state_def)
  have merged: "(ex_state ex_form)
        \<lparr>currentConfig := spread (currentConfig (ex_state ex_form))
                             (collectFormData (form (ex_state ex_form))),
         unsavedChanges := False\<rparr>
      = \<lparr>currentConfig = collectFormData ex_form, unsavedChanges = False, form = ex_form\<rparr>"
    by (simp add: ex_state_def spread_def collectFormData_def)
  have differs: "\<lparr>currentConfig = collectFormData ex_form, unsavedChanges = False,
                  form = ex_form\<rparr> \<noteq> ex_state ex_form"
    by (simp add: ex_state_def)
  show ?thesis
    using saveSettings_failure_keeps_state [of FetchRejected "ex_state ex_form"]
      saveSettings_failure_keeps_state
        [of "BodyObject (Some ''error'') (Some ''rejected'')" "ex_state ex_form"]
      saveSettings_failure_keeps_state
        [of "BodyObject (Some ''success'') None" "ex_state ex_form"
            "\<lparr>valid = True, errors = []\<rparr>"]
      f1 f2 ok v vv dirty merged differs
    by simp
qed

section \<open>System status\<close>

text \<open>
  C8. With both elements present, \<open>displaySystemStatus\<close> shows a state for every value of
  \<open>health\<close>: \<open>HEALTHY\<close> the healthy state, \<open>DEGRADED\<close> and \<open>PARTIAL\<close> the warning
  state, \<open>ERROR\<close> the error state, and any other value (an absent one included) the
  warning state.
\<close>

theorem displaySystemStatus_tri_state:
  "(health st = Some ''HEALTHY'' \<longrightarrow> displayedState st e = Some Healthy)
   \<and> (health st = Some ''DEGRADED'' \<or> health st = Some ''PARTIAL'' \<longrightarrow>
        displayedState st e = Some Warning)
   \<and> (health st = Some ''ERROR'' \<longrightarrow> displayedState st e = Some Failed)
   \<and> (health st \<notin> {Some ''HEALTHY'', Some ''DEGRADED'', Some ''PARTIAL'', Some ''ERROR''} \<longrightarrow>
        displayedState st e = Some Warning)"
  by (simp add: displayedState_def displaySystemStatus_def tri_state_of_def Let_def)

theorem displaySystemStatus_tri_state_witness:
  "displayedState \<lparr>health = Some ''HEALTHY''\<rparr>
     \<lparr>indicator_classes = [''status-indicator''], status_text = []\<rparr> = Some Healthy
   \<and> displayedState \<lparr>health = Some ''DEGRADED''\<rparr>
     \<lparr>indicator_classes = [''status-indicator''], status_text = []\<rparr> = Some Warning
   \<and> displayedState \<lparr>health = Some ''PARTIAL''\<rparr>
     \<lparr>indicator_classes = [''status-indicator''], status_text = []\<rparr> = Some Warning
   \<and> displayedState \<lparr>health = Some ''ERROR''\<rparr>
     \<lparr>indicator_classes = [''status-indicator''], status_text = []\<rparr> = Some Failed
   \<and> displayedState \<lparr>health = Some ''MAINTENANCE''\<rparr>
     \<lparr>indicator_classes = [''status-indicator''], status_text = []\<rparr> = Some Warning
   \<and> displayedState \<lparr>health = None\<rparr>
     \<lparr>indicator_classes = [''status-indicator''], status_text = []\<rparr> = Some Warning"
  using displaySystemStatus_tri_state [of "\<lparr>health = Some ''HEALTHY''\<rparr>"
          "\<lparr>indicator_classes = [''status-indicator''], status_text = []\<rparr>"]
    displaySystemStatus_tri_state [of "\<lparr>health = Some ''DEGRADED''\<rparr>"
          "\<lparr>indicator_classes = [''status-indicator''], status_text = []\<rparr>"]
    displaySystemStatus_tri_state [of "\<lparr>health = Some ''PARTIAL''\<rparr>"
          "\<lparr>indicator_classes = [''status-indicator''], status_text = []\<rparr>"]
    displaySystemStatus_tri_state [of "\<lparr>health = Some ''ERROR''\<rparr>"
          "\<lparr>indicator_classes = [''status-indicator''], status_text = []\<rparr>"]
    displaySystemStatus_tri_state [of "\<lparr>health = Some ''MAINTENANCE''\<rparr>"
          "\<lparr>indicator_classes = [''status-indicator''], status_text = []\<rparr>"]
    displaySystemStatus_tri_state [of "\<lparr>health = None\<rparr>"
          "\<lparr>indicator_classes = [''status-indicator''], status_text = []\<rparr>"]
  by simp

text \<open>
  The multi-asset line of the dashboard is a different display: it is online for
  \<open>HEALTHY\<close> and \<open>PARTIAL\<close> and offline for every other value of \<open>overall_status\<close>.
\<close>

lemma multiAssetStatus_two_states:
  "multiAssetStatus (MultiBody h) (Some el) =
     (if h = Some ''HEALTHY'' \<or> h = Some ''PARTIAL''
      then Some \<lparr>line_text = ''Status: Online'', line_class = ''status-text online''\<rparr>
      else Some \<lparr>line_text = ''Status: Offline'', line_class = ''status-text offline''\<rparr>)"
  by (simp add: multiAssetStatus_def updateStatusDisplay_def)

section \<open>Deduplication\<close>

text \<open>
  \<open>removeDuplicateSignals\<close> keeps the head of the list and, of the rest, what it keeps of
  the tail less the signals that carry the id of the head.
\<close>

lemma removeDuplicateSignals_Nil: "removeDuplicateSignals [] = []"
  by (simp add: removeDuplicateSignals_def)

lemma removeDuplicateSignals_Cons:
  "removeDuplicateSignals (x # xs) =
     x # filter (\<lambda>s. signal_id s \<noteq> signal_id x) (removeDuplicateSignals xs)"
proof -
  let ?Q = "\<lambda>(j, s). Some j = findIndex (\<lambda>t. signal_id t = signal_id s) xs"
  let ?P = "\<lambda>(i, s). Some i = findIndex (\<lambda>t. signal_id t = signal_id s) (x # xs)"
  have step: "(?P \<circ> apfst Suc) p = (signal_id (snd p) \<noteq> signal_id x \<and> ?Q p)" for p
    by (cases p) (auto split: option.splits)
  have "map snd (filter ?P (enumerate (Suc 0) xs))
        = map snd (map (apfst Suc) (filter (?P \<circ> apfst Suc) (enumerate 0 xs)))"
    by (simp only: enumerate_Suc_eq filter_map)
  also have "\<dots> = map snd (filter (?P \<circ> apfst Suc) (enumerate 0 xs))"
    by (simp add: comp_def)
  also have "\<dots> = map snd (filter (\<lambda>p. signal_id (snd p) \<noteq> signal_id x)
                                (filter ?Q (enumerate 0 xs)))"
  proof -
    have "filter (?P \<circ> apfst Suc) (enumerate 0 xs)
          = filter (\<lambda>p. signal_id (snd p) \<noteq> signal_id x) (filter ?Q (enumerate 0 xs))"
      unfolding filter_filter by (rule filter_cong) (auto simp only: step)
    then show ?thesis by (rule arg_cong)
  qed
  also have "\<dots> = filter (\<lambda>s. signal_id s \<noteq> signal_id x)
                      (map snd (filter ?Q (enumerate 0 xs)))"
    by (simp add: filter_map comp_def)
  finally show ?thesis
    by (simp add: removeDuplicateSignals_def)
qed

lemma removeDuplicateSignals_ids:
  "signal_id ` set (removeDuplicateSignals xs) = signal_id ` set xs"
proof (induction xs)
  case Nil
  show ?case by (simp add: removeDuplicateSignals_Nil)
next
  case (Cons x xs)
  have "signal_id ` set (filter (\<lambda>s. signal_id s \<noteq> signal_id x) (removeDuplicateSignals xs))
        = signal_id ` set (removeDuplicateSignals xs) - {signal_id x}"
    by auto
  with Cons.IH show ?case
    by (simp add: removeDuplicateSignals_Cons)
qed

lemma removeDuplicateSignals_distinct:
  "distinct (map signal_id (removeDuplicateSignals xs))"
  by (induction xs)
     (auto simp: removeDuplicateSignals_Nil removeDuplicateSignals_Cons distinct_map_filter)


lemma removeDuplicateSignals_subset:
  "set (removeDuplicateSignals xs) \<subseteq> set xs"
  by (induction xs) (auto simp: removeDuplicateSignals_Nil removeDuplicateSignals_Cons)

lemma removeDuplicateSignals_id_if_distinct:
  "distinct (map signal_id xs) \<Longrightarrow> removeDuplicateSignals xs = xs"
proof (induction xs)
  case Nil
  show ?case by (simp add: removeDuplicateSignals_Nil)
next
  case (Cons x xs)
  from Cons.prems have "signal_id x \<notin> signal_id ` set xs"
    by simp
  then have "\<forall>s\<in>set xs. signal_id s \<noteq> signal_id x"
    by (metis imageI)
  then have "filter (\<lambda>s. signal_id s \<noteq> signal_id x) xs = xs"
    by (simp add: filter_id_conv)
  with Cons show ?case by (simp add: removeDuplicateSignals_Cons)
qed

section \<open>The rendered rows\<close>

text \<open>With the comparator of the dashboard, \<open>Array_sort\<close> is the stable insertion sort
  of the library on the key \<open>- created_at\<close>.\<close>

lemma insertSorted_byCreatedDesc:
  "insertSorted byCreatedDesc x ys = insort_key (\<lambda>s. - created_at s) x ys"
  by (induction ys) (auto simp: byCreatedDesc_def)

lemma Array_sort_byCreatedDesc:
  "Array_sort byCreatedDesc xs = sort_key (\<lambda>s. - created_at s) xs"
  by (induction xs) (simp_all add: Array_sort_def sort_key_def insertSorted_byCreatedDesc)

lemma renderedSignals_sort_key:
  "renderedSignals xs = take 20 (sort_key (\<lambda>s. - created_at s) (removeDuplicateSignals xs))"
  by (simp add: renderedSignals_def Array_sort_byCreatedDesc)

lemma distinct_map_sort_key:
  "distinct (map f (sort_key k ys)) = distinct (map f ys)"
  by (simp add: distinct_map)

lemma renderedSignals_distinct:
  "distinct (map signal_id (renderedSignals xs))"
proof -
  have "distinct (map signal_id (sort_key (\<lambda>s. - created_at s) (removeDuplicateSignals xs)))"
    by (simp only: distinct_map_sort_key removeDuplicateSignals_distinct)
  then show ?thesis
    by (simp add: renderedSignals_sort_key take_map [symmetric])
qed

lemma renderedSignals_subset:
  "set (renderedSignals xs) \<subseteq> set (removeDuplicateSignals xs)"
  using set_take_subset [of 20 "sort_key (\<lambda>s. - created_at s) (removeDuplicateSignals xs)"]
  by (simp add: renderedSignals_sort_key)

lemma renderedSignals_sorted:
  "sorted_wrt (\<lambda>a b. created_at a \<ge> created_at b) (renderedSignals xs)"
proof -
  let ?S = "sort_key (\<lambda>s. - created_at s) (removeDuplicateSignals xs)"
  have "sorted (map (\<lambda>s. - created_at s) ?S)" by simp
  then have "sorted_wrt (\<lambda>a b. created_at a \<ge> created_at b) ?S"
    by (simp add: sorted_map)
  then have "sorted_wrt (\<lambda>a b. created_at a \<ge> created_at b) (take 20 ?S @ drop 20 ?S)"
    by simp
  then show ?thesis
    unfolding sorted_wrt_append by (simp add: renderedSignals_sort_key)
qed

lemma renderedSignals_omitted_older:
  assumes "r \<in> set (renderedSignals xs)"
    and "o' \<in> set (removeDuplicateSignals xs) - set (renderedSignals xs)"
  shows "created_at o' \<le> created_at r"
proof -
  let ?S = "sort_key (\<lambda>s. - created_at s) (removeDuplicateSignals xs)"
  have "sorted (map (\<lambda>s. - created_at s) ?S)" by simp
  then have "sorted_wrt (\<lambda>a b. created_at a \<ge> created_at b) ?S"
    by (simp add: sorted_map)
  then have sw: "sorted_wrt (\<lambda>a b. created_at a \<ge> created_at b) (take 20 ?S @ drop 20 ?S)"
    by simp
  have "set ?S = set (take 20 ?S) \<union> set (drop 20 ?S)"
    by (metis append_take_drop_id set_append)
  moreover from assms(2) have "o' \<in> set ?S" "o' \<notin> set (take 20 ?S)"
    by (simp_all add: renderedSignals_sort_key)
  ultimately have "o' \<in> set (drop 20 ?S)"
    by blast
  moreover from assms(1) have "r \<in> set (take 20 ?S)"
    by (simp add: renderedSignals_sort_key)
  ultimately show ?thesis
    using sw unfolding sorted_wrt_append by blast
qed

lemma removeDuplicateSignals_length:
  "length (removeDuplicateSignals xs) = card (signal_id ` set xs)"
proof -
  have "card (set (map signal_id (removeDuplicateSignals xs)))
        = length (map signal_id (removeDuplicateSignals xs))"
    by (rule distinct_card) (rule removeDuplicateSignals_distinct)
  then show ?thesis
    by (simp add: removeDuplicateSignals_ids)
qed




lemma ex_dup_dedup:
  "removeDuplicateSignals ex_dup_signals =
     [ex_signal 1 100 ''BTC'' ''ACTIVE'', ex_signal 2 200 ''ETH'' ''ACTIVE'']"
  by (simp add: ex_dup_signals_def ex_signal_def removeDuplicateSignals_Cons
        removeDuplicateSignals_Nil)

lemma ex_dup_rendered:
  "renderedSignals ex_dup_signals =
     [ex_signal 2 200 ''ETH'' ''ACTIVE'', ex_signal 1 100 ''BTC'' ''ACTIVE'']"
  by (simp add: renderedSignals_def ex_dup_dedup Array_sort_def byCreatedDesc_def ex_signal_def)

lemma ex_25_rendered:
  "map signal_id (renderedSignals ex_25_signals) =
     [24, 23, 22, 21, 20, 19, 18, 17, 16, 15, 14, 13, 12, 11, 10, 9, 8, 7, 6, 5]"
  by code_simp




text \<open>
  C5. When the incoming list has more than 20 distinct ids, 20 rows are rendered: they
  are deduplicated signals with pairwise distinct ids, in descending order of creation
  time, and every deduplicated signal that is left out was created no later than every
  rendered one. These rows are what \<open>displaySignalsTable\<close> puts into the table body.
\<close>

theorem rendered_window_most_recent:
  assumes "20 < card (signal_id ` set signals)"
  shows "length (renderedSignals signals) = 20
       \<and> sorted_wrt (\<lambda>a b. created_at a \<ge> created_at b) (renderedSignals signals)
       \<and> set (renderedSignals signals) \<subseteq> set (removeDuplicateSignals signals)
       \<and> distinct (map signal_id (renderedSignals signals))
       \<and> (\<forall>r\<in>set (renderedSignals signals).
            \<forall>older\<in>set (removeDuplicateSignals signals) - set (renderedSignals signals).
              created_at older \<le> created_at r)
       \<and> (signals_table_body d \<noteq> None \<longrightarrow>
            signals_table_body (displaySignalsTable signals d)
              = Some (SignalRows (renderedSignals signals)))"
proof -
  from assms have len: "length (renderedSignals signals) = 20"
    by (simp add: renderedSignals_sort_key removeDuplicateSignals_length)
  from assms have "signals \<noteq> []" by auto
  then have shown: "signals_table_body d \<noteq> None \<longrightarrow>
            signals_table_body (displaySignalsTable signals d)
              = Some (SignalRows (renderedSignals signals))"
    by (auto simp: displaySignalsTable_def split: option.splits)
  show ?thesis
    using len shown renderedSignals_sorted [of signals] renderedSignals_subset [of signals]
      renderedSignals_distinct [of signals] renderedSignals_omitted_older [where xs = signals]
    by blast
qed

theorem rendered_window_most_recent_witness:
  "20 < card (signal_id ` set ex_25_signals)
   \<and> length (renderedSignals ex_25_signals) = 20
   \<and> map signal_id (renderedSignals ex_25_signals) =
       [24, 23, 22, 21, 20, 19, 18, 17, 16, 15, 14, 13, 12, 11, 10, 9, 8, 7, 6, 5]
   \<and> signals_table_body (displaySignalsTable ex_25_signals ex_dashboard)
       = Some (SignalRows (renderedSignals ex_25_signals))"
proof -
  have "signal_id ` set ex_25_signals = {0..<25}"
    by (simp add: ex_25_signals_def ex_signal_def image_image)
  then have c: "20 < card (signal_id ` set ex_25_signals)"
    by simp
  have b: "signals_table_body ex_dashboard \<noteq> None"
    by (simp add: ex_dashboard_def)
  show ?thesis
    using rendered_window_most_recent [OF c, of ex_dashboard] c b ex_25_rendered
    by simp
qed

lemma renderedSignals_empty_iff:
  "renderedSignals xs = [] \<longleftrightarrow> xs = []"
  by (cases xs)
     (simp_all add: renderedSignals_sort_key removeDuplicateSignals_Nil
        removeDuplicateSignals_Cons sort_key_def)

lemma renderedSignals_idem:
  "renderedSignals (renderedSignals xs) = renderedSignals xs"
proof -
  let ?R = "renderedSignals xs"
  have d: "removeDuplicateSignals ?R = ?R"
    by (rule removeDuplicateSignals_id_if_distinct) (rule renderedSignals_distinct)
  have "sorted (map (\<lambda>s. - created_at s) ?R)"
    using renderedSignals_sorted [of xs] by (simp add: sorted_map)
  then have s: "sort_key (\<lambda>s. - created_at s) ?R = ?R"
    by (rule sort_key_id_if_sorted)
  have l: "length ?R \<le> 20"
    by (simp add: renderedSignals_sort_key)
  show ?thesis
    using l by (subst renderedSignals_sort_key) (simp add: d s)
qed

text \<open>
  C9. The pipeline is idempotent: applied to the rows it produced it yields the same rows,
  displaying those rows gives the same table as displaying the incoming list, and
  displaying the same incoming list a second time changes nothing.
\<close>

theorem reconcile_idempotent:
  "renderedSignals (renderedSignals signals) = renderedSignals signals
   \<and> displaySignalsTable (renderedSignals signals) d = displaySignalsTable signals d
   \<and> displaySignalsTable signals (displaySignalsTable signals d) = displaySignalsTable signals d"
  by (auto simp: displaySignalsTable_def renderedSignals_idem renderedSignals_empty_iff
           split: option.splits)

section \<open>A failed polling cycle\<close>

text \<open>
  C6, as the code has it. When the cycle fails, \<open>showSignalsError\<close> puts the row that
  reports the failure into the table body, in place of whatever was there; the rest of
  the dashboard state is kept. Only when the page has no table body does nothing change.
\<close>

theorem updateSignalsTable_failure_shows_error:
  assumes "fetchFails reply"
  shows "updateSignalsTable now reply d =
           d\<lparr>signals_table_body :=
               (case signals_table_body d of None \<Rightarrow> None | Some tbody \<Rightarrow> Some LoadErrorRow)\<rparr>"
  using assms
  by (auto simp: updateSignalsTable_def fetchFails_def showSignalsError_def
           split: signals_reply.splits option.splits)

theorem updateSignalsTable_failure_shows_error_witness:
  "fetchFails (SignalsHttpError 503 :: (nat, unit) signals_reply)
   \<and> updateSignalsTable 50000 (SignalsHttpError 503) ex_dashboard
       = ex_dashboard\<lparr>signals_table_body := Some LoadErrorRow\<rparr>"
proof -
  have f: "fetchFails (SignalsHttpError 503 :: (nat, unit) signals_reply)"
    by (simp add: fetchFails_def)
  show ?thesis
    using updateSignalsTable_failure_shows_error [OF f, of 50000 ex_dashboard] f
    by (simp add: ex_dashboard_def)
qed

lemma ex_rendered_body:
  "signals_table_body ex_rendered_dashboard =
     Some (SignalRows [ex_signal 2 200 ''ETH'' ''ACTIVE'', ex_signal 1 100 ''BTC'' ''ACTIVE''])"
  by (simp add: ex_rendered_dashboard_def ex_good_reply_def updateSignalsTable_def Let_def
        checkForDuplicateSignals_def checkSignalMonitorStatus_def displaySignalsTable_def
        updateSignalsCounts_def ex_dashboard_def ex_dup_rendered)
     (simp add: ex_dup_signals_def)

text \<open>
  C6, as stated, fails: after a cycle that rendered two signals, a cycle whose fetch is
  rejected leaves the error row in the table body, not the two rendered rows.
\<close>

theorem failed_poll_replaces_rendered_signals:
  "signals_table_body ex_rendered_dashboard =
     Some (SignalRows [ex_signal 2 200 ''ETH'' ''ACTIVE'', ex_signal 1 100 ''BTC'' ''ACTIVE''])
   \<and> signals_table_body (updateSignalsTable 50000 SignalsFetchRejected ex_rendered_dashboard)
       = Some LoadErrorRow
   \<and> signals_table_body (updateSignalsTable 50000 SignalsFetchRejected ex_rendered_dashboard)
       \<noteq> signals_table_body ex_rendered_dashboard"
  by (simp add: ex_rendered_body updateSignalsTable_def showSignalsError_def)

end
